theory Spec2Isabelle
  imports Complex_Main
begin

section \<open>Numbers\<close>

text \<open>
  A JavaScript \<open>number\<close> is an IEEE 754 double. A finite double is the rational it
  denotes, and the product and the sum of two doubles are the exact product and sum
  rounded to the nearest double, ties to the even significand. \<open>round_double\<close> scales its
  argument into the range of a 53-bit significand, rounds there and scales back. Overflow
  to \<open>Infinity\<close> and the subnormal range are outside the model: the prices and quantities
  of the catalog are far from both. A \<open>numeric\<close> column of the store is represented by
  the double that the pages write to it and read from it; a quantity is an integer.
\<close>

definition round_half_even :: "rat \<Rightarrow> int" where
  "round_half_even x =
     (let f = \<lfloor>x\<rfloor>; r = x - of_int f
      in if r < 1 / 2 then f else if 1 / 2 < r then f + 1 else if even f then f else f + 1)"

fun normalise :: "nat \<Rightarrow> rat \<Rightarrow> int \<Rightarrow> rat \<times> int" where
  "normalise n m e =
     (if n = 0 then (m, e)
      else if m < 2 ^ 52 then normalise (n - 1) (2 * m) (e - 1)
      else if 2 ^ 53 \<le> m then normalise (n - 1) (m / 2) (e + 1)
      else (m, e))"

declare normalise.simps [simp del]

definition pow2 :: "int \<Rightarrow> rat" where
  "pow2 e = (if 0 \<le> e then 2 ^ nat e else 1 / 2 ^ nat (- e))"

definition round_double :: "rat \<Rightarrow> rat" where
  "round_double x =
     (if x = 0 then 0
      else case normalise 1100 \<bar>x\<bar> 0 of
             (m, e) \<Rightarrow> sgn x * of_int (round_half_even m) * pow2 e)"

text \<open>The operators \<open>*\<close> and \<open>+\<close> of JavaScript on numbers.\<close>

definition dmul :: "rat \<Rightarrow> rat \<Rightarrow> rat" where
  "dmul a b = round_double (a * b)"

definition dadd :: "rat \<Rightarrow> rat \<Rightarrow> rat" where
  "dadd a b = round_double (a + b)"


section \<open>Data model\<close>

text \<open>
  The pages keep their data in the tables that the schema of the repository declares
  (\<open>CREATE TABLE public.profiles\<close>, \<open>menu_items\<close>, \<open>cart_items\<close>, \<open>orders\<close>,
  \<open>order_items\<close>). A table is a list of rows, a row a record of columns. Identifiers are
  strings (UUIDs in the store); only their equality is used, and timestamps are natural
  numbers. Column names are prefixed with the table they belong to, since several tables
  have an \<open>id\<close> and a \<open>quantity\<close>. Of \<open>profiles\<close> the model keeps \<open>id\<close> and \<open>role\<close>, of
  \<open>menu_items\<close> the columns the cart selects, of \<open>cart_items\<close> and \<open>order_items\<close> the
  columns the pages write.
\<close>

type_synonym uuid = string

record profile_row =
  prof_id :: uuid
  prof_role :: string

record menu_item_row =
  mi_id :: uuid
  mi_name :: string
  mi_price :: rat
  mi_image_url :: string
  mi_is_vegetarian :: bool

record cart_row =
  cart_id :: uuid
  cart_student_id :: uuid
  cart_menu_item_id :: uuid
  cart_quantity :: int

datatype payment_method = Upi | Card | Razorpay

text \<open>
  \<open>CREATE TABLE public.orders\<close>, without \<open>notes\<close>, which no page writes. \<open>created_at\<close> and
  \<open>updated_at\<close> default to the store's \<open>now()\<close>; \<open>completed_at\<close> has no default and starts
  empty. \<open>order_number\<close> is declared \<open>UNIQUE\<close>, and \<open>status\<close> is checked to be one of
  five values.
\<close>

record order_row =
  ord_id :: uuid
  ord_order_number :: string
  ord_student_id :: uuid
  ord_status :: string
  ord_subtotal :: rat
  ord_tax :: rat
  ord_total :: rat
  ord_payment_method :: payment_method
  ord_payment_status :: string
  ord_created_at :: nat
  ord_updated_at :: nat
  ord_completed_at :: "nat option"

record order_item_row =
  oi_order_id :: uuid
  oi_menu_item_id :: uuid
  oi_quantity :: int
  oi_price_at_order :: rat
  oi_subtotal :: rat

record db =
  profiles :: "profile_row list"
  menu_items :: "menu_item_row list"
  cart_items :: "cart_row list"
  orders :: "order_row list"
  order_items :: "order_item_row list"

text \<open>
  What the store and the browser answer during one handler call: the browser's clock
  (\<open>Date.now()\<close>, milliseconds), the store's \<open>now()\<close>, the identifier the store gives to
  a row it inserts, and for every access whether the store reports an error. A write that
  reports an error leaves its table as it was.
\<close>

record backend =
  clock :: nat
  db_now :: nat
  fresh_id :: uuid
  cart_select_ok :: bool
  cart_insert_ok :: bool
  cart_update_ok :: bool
  cart_delete_ok :: bool
  orders_insert_ok :: bool
  orders_update_ok :: bool
  order_items_insert_ok :: bool

text \<open>
  A handler returns nothing; what the user sees of it are its calls to \<open>toast\<close>,
  \<open>console.error\<close>, \<open>navigate\<close> and the reload of the page's data, in order.
\<close>

datatype effect =
  Toast_error string
| Toast_success string
| Console_error string
| Navigate string
| Load_cart
| Load_orders

section \<open>Cart page (Cart.tsx)\<close>

text \<open>
  The interface \<open>CartItem\<close>: a cart row's \<open>id\<close> and \<open>quantity\<close> with the joined menu item.
\<close>

record CartItem =
  ci_id :: uuid
  ci_quantity :: int
  ci_menu_item :: menu_item_row

text \<open>
  \<open>loadCart\<close>: the student's cart rows, each joined with its menu item. The column
  \<open>menu_item_id\<close> is declared to reference \<open>menu_items(id)\<close>, so the store holds the
  joined row; a cart row without one yields no \<open>CartItem\<close> here.
\<close>

definition join_menu_item :: "db \<Rightarrow> cart_row \<Rightarrow> CartItem option" where
  "join_menu_item d c =
     (case find (\<lambda>m. mi_id m = cart_menu_item_id c) (menu_items d) of
        None \<Rightarrow> None
      | Some m \<Rightarrow> Some \<lparr>ci_id = cart_id c, ci_quantity = cart_quantity c, ci_menu_item = m\<rparr>)"

definition loadCart :: "db \<Rightarrow> uuid \<Rightarrow> CartItem list" where
  "loadCart d user =
     List.map_filter (join_menu_item d) (filter (\<lambda>c. cart_student_id c = user) (cart_items d))"

definition updateQuantity :: "backend \<Rightarrow> uuid \<Rightarrow> int \<Rightarrow> db \<Rightarrow> effect list \<times> db" where
  "updateQuantity be itemId newQuantity d =
     (if newQuantity < 1 then ([], d)
      else if \<not> cart_update_ok be then ([Toast_error ''Failed to update quantity''], d)
      else ([Load_cart],
            d\<lparr>cart_items :=
                 map (\<lambda>c. if cart_id c = itemId then c\<lparr>cart_quantity := newQuantity\<rparr> else c)
                     (cart_items d)\<rparr>))"

definition removeItem :: "backend \<Rightarrow> uuid \<Rightarrow> db \<Rightarrow> effect list \<times> db" where
  "removeItem be itemId d =
     (if \<not> cart_delete_ok be then ([Toast_error ''Failed to remove item''], d)
      else ([Toast_success ''Item removed from cart'', Load_cart],
            d\<lparr>cart_items := filter (\<lambda>c. cart_id c \<noteq> itemId) (cart_items d)\<rparr>))"

record totals =
  subtotal :: rat
  tax :: rat
  total :: rat

definition calculateTotal :: "CartItem list \<Rightarrow> totals" where
  "calculateTotal cartItems =
     (let subtotal = foldl (\<lambda>sum item.
                              dadd sum (dmul (mi_price (ci_menu_item item)) (of_int (ci_quantity item))))
                           0 cartItems;
          tax = dmul subtotal (round_double (5 / 100))
      in \<lparr>subtotal = subtotal, tax = tax, total = dadd subtotal tax\<rparr>)"

text \<open>
  \<open>Date.now().toString().slice(-6)\<close>: the decimal digits of the clock, most significant
  first, and of these the last six (all of them when there are fewer).
\<close>

definition digit_char :: "nat \<Rightarrow> char" where
  "digit_char k = ''0123456789'' ! k"

fun toString :: "nat \<Rightarrow> string" where
  "toString n = (if n < 10 then [digit_char n] else toString (n div 10) @ [digit_char (n mod 10)])"

declare toString.simps [simp del]

definition slice_last :: "nat \<Rightarrow> string \<Rightarrow> string" where
  "slice_last k s = drop (length s - k) s"

text \<open>The \<open>k\<close> least significant decimal digits of \<open>n\<close>, with leading zeros.\<close>

fun last_digits :: "nat \<Rightarrow> nat \<Rightarrow> string" where
  "last_digits 0 n = []"
| "last_digits (Suc k) n = last_digits k (n div 10) @ [digit_char (n mod 10)]"

definition orderNumber :: "nat \<Rightarrow> string" where
  "orderNumber now = ''ORD-'' @ slice_last 6 (toString now)"

text \<open>
  The row that the insertion into \<open>orders\<close> returns: the columns the page writes, the
  identifier and the timestamps the store issues, and no \<open>completed_at\<close>.
\<close>

definition new_order :: "backend \<Rightarrow> uuid \<Rightarrow> CartItem list \<Rightarrow> payment_method \<Rightarrow> order_row" where
  "new_order be user cartItems paymentMethod =
     (let t = calculateTotal cartItems
      in \<lparr>ord_id = fresh_id be,
          ord_order_number = orderNumber (clock be),
          ord_student_id = user,
          ord_status = ''pending'',
          ord_subtotal = subtotal t,
          ord_tax = tax t,
          ord_total = total t,
          ord_payment_method = paymentMethod,
          ord_payment_status = ''completed'',
          ord_created_at = db_now be,
          ord_updated_at = db_now be,
          ord_completed_at = None\<rparr>)"

definition orderItems :: "uuid \<Rightarrow> CartItem list \<Rightarrow> order_item_row list" where
  "orderItems order_id cartItems =
     map (\<lambda>item. \<lparr>oi_order_id = order_id,
                  oi_menu_item_id = mi_id (ci_menu_item item),
                  oi_quantity = ci_quantity item,
                  oi_price_at_order = mi_price (ci_menu_item item),
                  oi_subtotal = dmul (mi_price (ci_menu_item item)) (of_int (ci_quantity item))\<rparr>)
         cartItems"

text \<open>
  \<open>handleCheckout\<close>. Its inputs are the signed-in user (\<open>None\<close> when there is none), the
  page's \<open>cartItems\<close> and \<open>paymentMethod\<close> state, and the store.
\<close>

definition handleCheckout ::
  "backend \<Rightarrow> uuid option \<Rightarrow> CartItem list \<Rightarrow> payment_method \<Rightarrow> db \<Rightarrow> effect list \<times> db" where
  "handleCheckout be user cartItems paymentMethod d =
     (case user of
        None \<Rightarrow> ([], d)
      | Some uid \<Rightarrow>
          if length cartItems = 0 then ([Toast_error ''Your cart is empty''], d)
          else if \<not> orders_insert_ok be then ([Toast_error ''Failed to create order''], d)
          else
            let order = new_order be uid cartItems paymentMethod;
                d1 = d\<lparr>orders := orders d @ [order]\<rparr>
            in if \<not> order_items_insert_ok be
               then ([Toast_error ''Failed to create order items''], d1)
               else
                 let d2 = d1\<lparr>order_items := order_items d1 @ orderItems (ord_id order) cartItems\<rparr>;
                     cleared = d2\<lparr>cart_items := filter (\<lambda>c. cart_student_id c \<noteq> uid) (cart_items d2)\<rparr>
                 in if cart_delete_ok be
                    then ([Toast_success ''Order placed successfully!'', Navigate ''/orders''], cleared)
                    else ([Console_error ''Failed to clear cart'',
                           Toast_success ''Order placed successfully!'', Navigate ''/orders''], d2))"

text \<open>
  \<open>handleCheckout\<close> takes the store's answers as they come. The store of the schema gives
  them under its constraints, of which one bears on checkout: \<open>order_number\<close> is
  \<open>UNIQUE\<close>, so the insertion of an order succeeds only under a number that no stored
  order has. \<open>checkout\<close> is \<open>handleCheckout\<close> against that store.
\<close>

definition order_number_free :: "db \<Rightarrow> string \<Rightarrow> bool" where
  "order_number_free d n = (n \<notin> set (map ord_order_number (orders d)))"

definition checkout ::
  "backend \<Rightarrow> uuid option \<Rightarrow> CartItem list \<Rightarrow> payment_method \<Rightarrow> db \<Rightarrow> effect list \<times> db" where
  "checkout be user cartItems paymentMethod d =
     handleCheckout
       (be\<lparr>orders_insert_ok := orders_insert_ok be \<and> order_number_free d (orderNumber (clock be))\<rparr>)
       user cartItems paymentMethod d"

section \<open>Menu page (Menu.tsx)\<close>

text \<open>
  \<open>.single()\<close> yields the row when the query matches exactly one, and no data otherwise.
\<close>

definition single :: "'a list \<Rightarrow> 'a option" where
  "single rows = (case rows of [r] \<Rightarrow> Some r | _ \<Rightarrow> None)"

definition cart_entries :: "db \<Rightarrow> uuid \<Rightarrow> uuid \<Rightarrow> cart_row list" where
  "cart_entries d uid item_id =
     filter (\<lambda>c. cart_student_id c = uid \<and> cart_menu_item_id c = item_id) (cart_items d)"

text \<open>
  \<open>handleAddToCart\<close> reads the store and then writes it, with an \<open>await\<close> before each
  access. The read is \<open>cart_lookup\<close>: the handler drops the error of the select and looks
  at the data only, so a failed select is an absent entry to it. The write is
  \<open>cart_write\<close>, on the entry that the read found. The update reaches the rows of the
  caller with the identifier of that entry (row policy "Students can update own cart
  items"); the insertion is refused when the student already has an entry for the item
  (\<open>UNIQUE(student_id, menu_item_id)\<close>).
\<close>

definition cart_lookup :: "backend \<Rightarrow> uuid \<Rightarrow> menu_item_row \<Rightarrow> db \<Rightarrow> cart_row option" where
  "cart_lookup be uid item d =
     (if cart_select_ok be then single (cart_entries d uid (mi_id item)) else None)"

definition cart_write ::
  "backend \<Rightarrow> uuid \<Rightarrow> menu_item_row \<Rightarrow> cart_row option \<Rightarrow> db \<Rightarrow> effect list \<times> db" where
  "cart_write be uid item existing d =
     (case existing of
        Some existingItem \<Rightarrow>
          if \<not> cart_update_ok be then ([Toast_error ''Failed to update cart''], d)
          else ([Toast_success ''Added to cart!''],
                d\<lparr>cart_items :=
                     map (\<lambda>c. if cart_id c = cart_id existingItem \<and> cart_student_id c = uid
                               then c\<lparr>cart_quantity := cart_quantity existingItem + 1\<rparr> else c)
                         (cart_items d)\<rparr>)
      | None \<Rightarrow>
          if \<not> cart_insert_ok be \<or> cart_entries d uid (mi_id item) \<noteq> []
          then ([Toast_error ''Failed to add to cart''], d)
          else ([Toast_success ''Added to cart!''],
                d\<lparr>cart_items := cart_items d @
                     [\<lparr>cart_id = fresh_id be, cart_student_id = uid,
                       cart_menu_item_id = mi_id item, cart_quantity = 1\<rparr>]\<rparr>))"

text \<open>
  \<open>handleAddToCart\<close> run without another call in between. Its inputs are the page's
  \<open>isAuthenticated\<close> state, the signed-in user, the menu item of the button and the store.
\<close>

definition handleAddToCart ::
  "backend \<Rightarrow> bool \<Rightarrow> uuid option \<Rightarrow> menu_item_row \<Rightarrow> db \<Rightarrow> effect list \<times> db" where
  "handleAddToCart be isAuthenticated user item d =
     (if \<not> isAuthenticated
      then ([Toast_error ''Please sign in to add items to cart'', Navigate ''/auth''], d)
      else case user of
        None \<Rightarrow> ([], d)
      | Some uid \<Rightarrow> cart_write be uid item (cart_lookup be uid item d) d)"

text \<open>
  Clicks on the same button by the same signed-in student, one store answer per click,
  each call finished before the next begins; the result is the effects of each click and
  the final store.
\<close>

fun add_calls :: "backend list \<Rightarrow> uuid \<Rightarrow> menu_item_row \<Rightarrow> db \<Rightarrow> effect list list \<times> db" where
  "add_calls [] uid item d = ([], d)"
| "add_calls (be # bes) uid item d =
     (let r = handleAddToCart be True (Some uid) item d;
          rs = add_calls bes uid item (snd r)
      in (fst r # fst rs, snd rs))"

text \<open>
  Two clicks whose calls overlap: nothing keeps the second call from its read while the
  first waits for its own, so both reads come before both writes.
\<close>

definition add_overlapped ::
  "backend \<Rightarrow> backend \<Rightarrow> uuid \<Rightarrow> menu_item_row \<Rightarrow> db \<Rightarrow> effect list list \<times> db" where
  "add_overlapped be1 be2 uid item d =
     (let existing1 = cart_lookup be1 uid item d;
          existing2 = cart_lookup be2 uid item d;
          r1 = cart_write be1 uid item existing1 d;
          r2 = cart_write be2 uid item existing2 (snd r1)
      in ([fst r1, fst r2], snd r2))"

section \<open>Orders page (Orders.tsx)\<close>

text \<open>
  The statuses that the check constraint of \<open>orders.status\<close> admits; they are the states
  of the specification's fulfillment table.
\<close>

definition statuses :: "string list" where
  "statuses = [''pending'', ''preparing'', ''ready'', ''completed'', ''cancelled'']"

text \<open>
  The row policy "Admins can update orders": an update of \<open>orders\<close> reaches a row only
  when the profile of the caller (\<open>auth.uid()\<close>) has the role admin.
\<close>

definition is_admin :: "db \<Rightarrow> uuid option \<Rightarrow> bool" where
  "is_admin d caller =
     (case caller of
        None \<Rightarrow> False
      | Some uid \<Rightarrow> list_ex (\<lambda>p. prof_id p = uid \<and> prof_role p = ''admin'') (profiles d))"

text \<open>
  \<open>updateOrderStatus\<close>, with the session's user as \<open>caller\<close>. The update reaches the rows
  with the given identifier that the row policy lets the caller update. The trigger
  \<open>update_orders_updated_at\<close> sets \<open>updated_at\<close> of each of them, and the check constraint
  on \<open>status\<close> refuses the whole update when the new status is not admitted. An update
  that reaches no row reports no error.
\<close>

definition updateOrderStatus ::
  "backend \<Rightarrow> uuid option \<Rightarrow> uuid \<Rightarrow> string \<Rightarrow> db \<Rightarrow> effect list \<times> db" where
  "updateOrderStatus be caller orderId newStatus d =
     (let reached = (\<lambda>ord. is_admin d caller \<and> ord_id ord = orderId)
      in if \<not> orders_update_ok be \<or> (filter reached (orders d) \<noteq> [] \<and> newStatus \<notin> set statuses)
         then ([Toast_error ''Failed to update order status''], d)
         else ([Toast_success ''Order status updated'', Load_orders],
               d\<lparr>orders :=
                    map (\<lambda>ord. if reached ord
                                then ord\<lparr>ord_status := newStatus, ord_updated_at := db_now be\<rparr>
                                else ord)
                        (orders d)\<rparr>))"

text \<open>
  The buttons the page renders under an order, as the list of the \<open>newStatus\<close> each of
  them passes to \<open>updateOrderStatus\<close>, in the order of the page. The status is the one of
  the page's copy of the order.
\<close>

definition status_buttons :: "bool \<Rightarrow> string \<Rightarrow> string list" where
  "status_buttons isAdmin status =
     (if isAdmin \<and> status \<noteq> ''completed'' \<and> status \<noteq> ''cancelled''
      then (if status = ''pending'' then [''preparing''] else [])
         @ (if status = ''preparing'' then [''ready''] else [])
         @ (if status = ''ready'' then [''completed''] else [])
         @ [''cancelled'']
      else [])"

text \<open>
  The page's copy of an order (interface \<open>Order\<close>), with the \<open>id\<close> and \<open>status\<close> that the
  buttons use, and
  a click on the button for a new status under it: the page calls \<open>updateOrderStatus\<close>
  when it renders that button, and there is nothing to click otherwise.
\<close>

record Order =
  shown_id :: uuid
  shown_status :: string

definition button_click ::
  "backend \<Rightarrow> uuid option \<Rightarrow> bool \<Rightarrow> Order \<Rightarrow> string \<Rightarrow> db \<Rightarrow> effect list \<times> db" where
  "button_click be caller isAdmin order newStatus d =
     (if newStatus \<in> set (status_buttons isAdmin (shown_status order))
      then updateOrderStatus be caller (shown_id order) newStatus d
      else ([], d))"

text \<open>
  The lines the page shows for an order are the \<open>order_items\<close> rows of that order (the
  nested select of \<open>loadOrders\<close>); the amount of a line is \<open>price_at_order * quantity\<close>.
\<close>

definition order_lines :: "db \<Rightarrow> uuid \<Rightarrow> order_item_row list" where
  "order_lines d oid = filter (\<lambda>i. oi_order_id i = oid) (order_items d)"

definition line_amounts :: "db \<Rightarrow> uuid \<Rightarrow> rat list" where
  "line_amounts d oid =
     map (\<lambda>item. dmul (oi_price_at_order item) (of_int (oi_quantity item))) (order_lines d oid)"

section \<open>The fulfillment table of the specification\<close>

text \<open>
  The legal-transition table as the specification words it: pending to preparing or
  cancelled, preparing to ready or cancelled, ready to completed or cancelled, nothing
  out of completed or cancelled.
\<close>

definition legal_transition :: "string \<Rightarrow> string \<Rightarrow> bool" where
  "legal_transition from to =
     ((from = ''pending'' \<and> (to = ''preparing'' \<or> to = ''cancelled''))
    \<or> (from = ''preparing'' \<and> (to = ''ready'' \<or> to = ''cancelled''))
    \<or> (from = ''ready'' \<and> (to = ''completed'' \<or> to = ''cancelled'')))"

text \<open>Every cart row holds a quantity of at least one.\<close>

definition cart_quantities_ok :: "db \<Rightarrow> bool" where
  "cart_quantities_ok d = list_all (\<lambda>c. 1 \<le> cart_quantity c) (cart_items d)"

section \<open>Sample data\<close>

text \<open>
  Two students and an administrator, two dishes, the first student with two units of the
  first dish and one of the second in the cart, and a store that reports no error.
\<close>

definition thali :: menu_item_row where
  "thali = \<lparr>mi_id = ''m1'', mi_name = ''Thali'', mi_price = 100,
            mi_image_url = ''thali.png'', mi_is_vegetarian = True\<rparr>"

definition biryani :: menu_item_row where
  "biryani = \<lparr>mi_id = ''m2'', mi_name = ''Biryani'', mi_price = 150,
              mi_image_url = ''biryani.png'', mi_is_vegetarian = False\<rparr>"

definition sample_db :: db where
  "sample_db =
     \<lparr>profiles = [\<lparr>prof_id = ''u1'', prof_role = ''student''\<rparr>,
                  \<lparr>prof_id = ''u2'', prof_role = ''student''\<rparr>,
                  \<lparr>prof_id = ''a1'', prof_role = ''admin''\<rparr>],
      menu_items = [thali, biryani],
      cart_items = [\<lparr>cart_id = ''c1'', cart_student_id = ''u1'', cart_menu_item_id = ''m1'', cart_quantity = 2\<rparr>,
                    \<lparr>cart_id = ''c2'', cart_student_id = ''u1'', cart_menu_item_id = ''m2'', cart_quantity = 1\<rparr>],
      orders = [],
      order_items = []\<rparr>"

definition sample_cart :: "CartItem list" where
  "sample_cart = [\<lparr>ci_id = ''c1'', ci_quantity = 2, ci_menu_item = thali\<rparr>,
                  \<lparr>ci_id = ''c2'', ci_quantity = 1, ci_menu_item = biryani\<rparr>]"

definition accepting :: backend where
  "accepting = \<lparr>clock = 1700000123456, db_now = 1700000123500, fresh_id = ''o1'',
                cart_select_ok = True, cart_insert_ok = True, cart_update_ok = True,
                cart_delete_ok = True, orders_insert_ok = True, orders_update_ok = True,
                order_items_insert_ok = True\<rparr>"

definition sample_order :: "string \<Rightarrow> order_row" where
  "sample_order status =
     \<lparr>ord_id = ''o1'', ord_order_number = ''ORD-123456'', ord_student_id = ''u1'',
      ord_status = status, ord_subtotal = 350, ord_tax = 35 / 2, ord_total = 735 / 2,
      ord_payment_method = Upi, ord_payment_status = ''completed'',
      ord_created_at = 1700000123500, ord_updated_at = 1700000123500, ord_completed_at = None\<rparr>"

text \<open>The order lines and the store after the student's checkout.\<close>

definition sample_lines :: "order_item_row list" where
  "sample_lines =
     [\<lparr>oi_order_id = ''o1'', oi_menu_item_id = ''m1'', oi_quantity = 2,
       oi_price_at_order = 100, oi_subtotal = 200\<rparr>,
      \<lparr>oi_order_id = ''o1'', oi_menu_item_id = ''m2'', oi_quantity = 1,
       oi_price_at_order = 150, oi_subtotal = 150\<rparr>]"

definition placed_db :: db where
  "placed_db = sample_db\<lparr>cart_items := [], orders := [sample_order ''pending''],
                         order_items := sample_lines\<rparr>"

text \<open>
  The answers to two later checkouts: one a thousand seconds after the first, at a clock
  with the same last six digits, and one a day after the first.
\<close>

definition later :: backend where
  "later = accepting\<lparr>clock := 1700001123456, db_now := 1700001123500, fresh_id := ''o2''\<rparr>"

definition next_day :: backend where
  "next_day = accepting\<lparr>clock := 1700086523456, db_now := 1700086523500, fresh_id := ''o2''\<rparr>"



section \<open>Auxiliary facts\<close>

lemma floor_numeral_div: "\<lfloor>(numeral a :: rat) / numeral b\<rfloor> = numeral a div numeral b"
  using floor_divide_of_int_eq [of "numeral a" "numeral b", where ?'a = rat] by simp

lemmas double_eval = round_double_def normalise.simps round_half_even_def Let_def pow2_def
  floor_numeral_div dmul_def dadd_def

lemma round_double_sample:
  "round_double (5 / 100) = 3602879701896397 / 2 ^ 56"
  "round_double (1 / 10) = 3602879701896397 / 2 ^ 55"
  "round_double (2 / 10) = 3602879701896397 / 2 ^ 54"
  by (simp_all add: double_eval)

lemma calculateTotal_sample:
  "calculateTotal sample_cart = \<lparr>subtotal = 350, tax = 35 / 2, total = 735 / 2\<rparr>"
  by (simp add: calculateTotal_def sample_cart_def thali_def biryani_def double_eval)





lemma checkout_success_iff:
  "Toast_success ''Order placed successfully!'' \<in> set (fst (handleCheckout be user cs pm d))
   \<longleftrightarrow> (user \<noteq> None \<and> cs \<noteq> [] \<and> orders_insert_ok be \<and> order_items_insert_ok be)"
  by (cases user) (simp_all add: handleCheckout_def Let_def)

lemma checkout_success_store:
  assumes "cs \<noteq> []" "orders_insert_ok be" "order_items_insert_ok be"
  shows "orders (snd (handleCheckout be (Some uid) cs pm d)) = orders d @ [new_order be uid cs pm]"
    and "order_items (snd (handleCheckout be (Some uid) cs pm d))
           = order_items d @ orderItems (fresh_id be) cs"
    and "menu_items (snd (handleCheckout be (Some uid) cs pm d)) = menu_items d"
  using assms by (simp_all add: handleCheckout_def Let_def new_order_def)


lemma loadCart_sample: "loadCart sample_db ''u1'' = sample_cart"
  by (simp add: loadCart_def sample_db_def sample_cart_def join_menu_item_def
      List.map_filter_simps thali_def biryani_def)

lemma loadCart_price:
  assumes "item \<in> set (loadCart d uid)"
  shows "find (\<lambda>m. mi_id m = mi_id (ci_menu_item item)) (menu_items d) = Some (ci_menu_item item)"
proof -
  from assms obtain c where c: "join_menu_item d c = Some item"
    by (auto simp: loadCart_def List.map_filter_def)
  then obtain m where m: "find (\<lambda>m. mi_id m = cart_menu_item_id c) (menu_items d) = Some m"
    and it: "ci_menu_item item = m"
    by (auto simp: join_menu_item_def split: option.splits)
  from m have "mi_id m = cart_menu_item_id c" by (auto simp: find_Some_iff)
  with m it show ?thesis by simp
qed

lemma orderNumber_sample:
  "orderNumber 1700000123456 = ''ORD-123456''"
  "orderNumber 1700001123456 = ''ORD-123456''"
  "orderNumber 1700086523456 = ''ORD-523456''"
  by (simp_all add: orderNumber_def slice_last_def toString.simps digit_char_def)

lemma new_order_sample: "new_order accepting ''u1'' sample_cart Upi = sample_order ''pending''"
  by (simp add: new_order_def calculateTotal_sample sample_order_def accepting_def orderNumber_sample)

lemma orderItems_sample: "orderItems ''o1'' sample_cart = sample_lines"
  by (simp add: orderItems_def sample_cart_def sample_lines_def thali_def biryani_def double_eval)

lemma checkout_sample:
  "handleCheckout accepting (Some ''u1'') sample_cart Upi sample_db
     = ([Toast_success ''Order placed successfully!'', Navigate ''/orders''], placed_db)"
proof -
  have ok: "orders_insert_ok accepting" "order_items_insert_ok accepting" "cart_delete_ok accepting"
    "fresh_id accepting = ''o1''"
    by (simp_all add: accepting_def)
  have ne: "sample_cart \<noteq> []" by (simp add: sample_cart_def)
  show ?thesis
    using ok ne
    by (simp add: handleCheckout_def Let_def new_order_sample orderItems_sample placed_db_def
        sample_db_def sample_order_def)
qed

lemma checkout_next_day:
  "checkout next_day (Some ''u1'') sample_cart Upi placed_db
     = handleCheckout next_day (Some ''u1'') sample_cart Upi placed_db"
proof -
  have "order_number_free placed_db (orderNumber (clock next_day))"
    by (simp add: order_number_free_def placed_db_def sample_order_def next_day_def orderNumber_sample)
  moreover have "orders_insert_ok next_day" by (simp add: next_day_def accepting_def)
  ultimately have "next_day\<lparr>orders_insert_ok := orders_insert_ok next_day
      \<and> order_number_free placed_db (orderNumber (clock next_day))\<rparr> = next_day"
    by simp
  then show ?thesis by (simp add: checkout_def)
qed

lemma slice_last_snoc: "slice_last (Suc k) (xs @ [c]) = slice_last k xs @ [c]"
  by (simp add: slice_last_def)

lemma slice_last_0: "slice_last 0 xs = []"
  by (simp add: slice_last_def)

lemma toString_last_digits:
  "10 ^ k \<le> n \<Longrightarrow> slice_last (Suc k) (toString n) = last_digits (Suc k) n"
proof (induction k arbitrary: n)
  case 0
  show ?case
  proof (cases "n < 10")
    case True
    then show ?thesis by (simp add: toString.simps [of n] slice_last_def)
  next
    case False
    then show ?thesis
      by (simp add: toString.simps [of n] slice_last_snoc slice_last_0)
  qed
next
  case (Suc k)
  have aux: "10 * x \<le> n \<Longrightarrow> 1 \<le> x \<Longrightarrow> \<not> n < 10 \<and> x \<le> n div 10" for x :: nat
    by arith
  have p: "1 \<le> (10::nat) ^ k" by simp
  have m: "10 * 10 ^ k \<le> n" using Suc.prems by simp
  from aux [OF m p] have big: "\<not> n < 10" and "10 ^ k \<le> n div 10"
    by blast+
  from \<open>10 ^ k \<le> n div 10\<close>
  have "slice_last (Suc k) (toString (n div 10)) = last_digits (Suc k) (n div 10)"
    by (rule Suc.IH)
  then show ?case using big
    by (simp add: toString.simps [of n] slice_last_snoc)
qed

lemma digit_char_inject:
  assumes "a < 10" "b < 10"
  shows "digit_char a = digit_char b \<longleftrightarrow> a = b"
proof -
  have inv: "of_char (digit_char k) = 48 + k" if "k < 10" for k
  proof -
    from that have "k = 0 \<or> k = 1 \<or> k = 2 \<or> k = 3 \<or> k = 4 \<or> k = 5 \<or> k = 6 \<or> k = 7
                      \<or> k = 8 \<or> k = 9"
      by arith
    then show ?thesis by (elim disjE) (simp_all add: digit_char_def)
  qed
  show ?thesis
  proof
    assume "digit_char a = digit_char b"
    then have "(of_char (digit_char a) :: nat) = of_char (digit_char b)" by simp
    then show "a = b" using inv [OF assms(1)] inv [OF assms(2)] by simp
  qed simp
qed

lemma last_digits_eq_iff:
  "last_digits k a = last_digits k b \<longleftrightarrow> a mod 10 ^ k = b mod 10 ^ k"
proof (induction k arbitrary: a b)
  case 0
  show ?case by simp
next
  case (Suc k)
  have aux: "(x = y \<and> r = s) \<longleftrightarrow> (10 * x + r = 10 * y + s)"
    if "r < 10" "s < 10" for x y r s :: nat
  proof
    assume e: "10 * x + r = 10 * y + s"
    have "(10 * x + r) div 10 = x" "(10 * x + r) mod 10 = r"
      using that(1) by simp_all
    moreover have "(10 * y + s) div 10 = y" "(10 * y + s) mod 10 = s"
      using that(2) by simp_all
    ultimately show "x = y \<and> r = s" unfolding e by simp
  qed simp
  have split: "n mod 10 ^ Suc k = 10 * (n div 10 mod 10 ^ k) + n mod 10" for n :: nat
    by (simp add: mod_mult2_eq)
  have "last_digits (Suc k) a = last_digits (Suc k) b
          \<longleftrightarrow> last_digits k (a div 10) = last_digits k (b div 10) \<and> digit_char (a mod 10) = digit_char (b mod 10)"
    by simp
  also have "\<dots> \<longleftrightarrow> a div 10 mod 10 ^ k = b div 10 mod 10 ^ k \<and> a mod 10 = b mod 10"
    by (simp add: Suc.IH digit_char_inject)
  also have "\<dots> \<longleftrightarrow> a mod 10 ^ Suc k = b mod 10 ^ Suc k"
    unfolding split [of a] split [of b]
    by (rule aux) simp_all
  finally show ?case .
qed

lemma orderNumber_eq_iff:
  assumes "10 ^ 5 \<le> a" "10 ^ 5 \<le> b"
  shows "orderNumber a = orderNumber b \<longleftrightarrow> a mod 10 ^ 6 = b mod 10 ^ 6"
proof -
  have "slice_last (Suc 5) (toString a) = last_digits (Suc 5) a"
    "slice_last (Suc 5) (toString b) = last_digits (Suc 5) b"
    using assms by (simp_all only: toString_last_digits)
  moreover have "Suc 5 = 6" by simp
  ultimately have "slice_last 6 (toString a) = last_digits 6 a" "slice_last 6 (toString b) = last_digits 6 b"
    by simp_all
  then show ?thesis by (simp add: orderNumber_def last_digits_eq_iff)
qed

lemma checkout_unfold:
  "checkout be user cs pm d
     = (if orders_insert_ok be \<and> order_number_free d (orderNumber (clock be))
        then handleCheckout (be\<lparr>orders_insert_ok := True\<rparr>) user cs pm d
        else handleCheckout (be\<lparr>orders_insert_ok := False\<rparr>) user cs pm d)"
  by (cases "orders_insert_ok be"; cases "order_number_free d (orderNumber (clock be))")
    (simp_all add: checkout_def)

lemma checkout_order_numbers:
  "map ord_order_number (orders (snd (checkout be user cs pm d)))
     = (if Toast_success ''Order placed successfully!'' \<in> set (fst (checkout be user cs pm d))
           \<or> Toast_error ''Failed to create order items'' \<in> set (fst (checkout be user cs pm d))
        then map ord_order_number (orders d) @ [orderNumber (clock be)]
        else map ord_order_number (orders d))"
  by (cases user) (simp_all add: checkout_unfold handleCheckout_def Let_def new_order_def)

lemma checkout_keeps_distinct:
  assumes "distinct (map ord_order_number (orders d))"
  shows "distinct (map ord_order_number (orders (snd (checkout be user cs pm d))))"
proof (cases "orders_insert_ok be \<and> order_number_free d (orderNumber (clock be))")
  case True
  then have "orderNumber (clock be) \<notin> set (map ord_order_number (orders d))"
    by (simp add: order_number_free_def)
  with assms have "distinct (map ord_order_number (orders d) @ [orderNumber (clock be)])"
    by simp
  with assms show ?thesis unfolding checkout_order_numbers by simp
next
  case False
  have "checkout be user cs pm d = handleCheckout (be\<lparr>orders_insert_ok := False\<rparr>) user cs pm d"
    by (simp only: checkout_unfold False if_False)
  then have "orders (snd (checkout be user cs pm d)) = orders d"
    by (cases user) (simp_all add: handleCheckout_def)
  with assms show ?thesis by simp
qed

lemma single_singleton: "single [r] = Some r"
  by (simp add: single_def)

lemma single_Nil: "single [] = None"
  by (simp add: single_def)

lemma single_Some_mem: "single rows = Some r \<Longrightarrow> r \<in> set rows"
  by (auto simp: single_def split: list.splits)

lemma cart_write_found:
  assumes "cart_entries d uid (mi_id item) = [r]" and "cart_update_ok be"
  shows "fst (cart_write be uid item (Some r) d) = [Toast_success ''Added to cart!'']"
    and "cart_entries (snd (cart_write be uid item (Some r) d)) uid (mi_id item)
           = [r\<lparr>cart_quantity := cart_quantity r + 1\<rparr>]"
proof -
  let ?P = "\<lambda>c. cart_student_id c = uid \<and> cart_menu_item_id c = mi_id item"
  let ?f = "\<lambda>c. if cart_id c = cart_id r \<and> cart_student_id c = uid
                  then c\<lparr>cart_quantity := cart_quantity r + 1\<rparr> else c"
  show "fst (cart_write be uid item (Some r) d) = [Toast_success ''Added to cart!'']"
    using assms(2) by (simp add: cart_write_def)
  have d': "cart_items (snd (cart_write be uid item (Some r) d)) = map ?f (cart_items d)"
    using assms(2) by (simp add: cart_write_def)
  have r: "filter ?P (cart_items d) = [r]" using assms(1) by (simp add: cart_entries_def)
  then have "r \<in> set (filter ?P (cart_items d))" by simp
  then have own: "cart_student_id r = uid" by simp
  have "filter ?P (map ?f (cart_items d)) = map ?f (filter (?P \<circ> ?f) (cart_items d))"
    by (simp only: filter_map)
  also have "?P \<circ> ?f = ?P" by (auto simp: fun_eq_iff)
  finally have "filter ?P (map ?f (cart_items d)) = [?f r]" unfolding r by simp
  then show "cart_entries (snd (cart_write be uid item (Some r) d)) uid (mi_id item)
           = [r\<lparr>cart_quantity := cart_quantity r + 1\<rparr>]"
    by (simp add: cart_entries_def d' own)
qed

lemma add_existing:
  assumes "cart_entries d uid (mi_id item) = [r]"
    and "fst (handleAddToCart be True (Some uid) item d) = [Toast_success ''Added to cart!'']"
  shows "cart_entries (snd (handleAddToCart be True (Some uid) item d)) uid (mi_id item)
           = [r\<lparr>cart_quantity := cart_quantity r + 1\<rparr>]"
proof (cases "cart_select_ok be")
  case True
  then have l: "cart_lookup be uid item d = Some r"
    using assms(1) by (simp add: cart_lookup_def single_singleton)
  then have h: "handleAddToCart be True (Some uid) item d = cart_write be uid item (Some r) d"
    by (simp add: handleAddToCart_def)
  have "cart_update_ok be"
    using assms(2) unfolding h by (simp add: cart_write_def split: if_splits)
  with assms(1) show ?thesis unfolding h by (rule cart_write_found(2))
next
  case False
  then have "cart_lookup be uid item d = None" by (simp add: cart_lookup_def)
  then have "fst (handleAddToCart be True (Some uid) item d) = [Toast_error ''Failed to add to cart'']"
    using assms(1) by (simp add: handleAddToCart_def cart_write_def)
  with assms(2) show ?thesis by simp
qed

lemma add_new:
  assumes "cart_entries d uid (mi_id item) = []"
    and "fst (handleAddToCart be True (Some uid) item d) = [Toast_success ''Added to cart!'']"
  shows "cart_entries (snd (handleAddToCart be True (Some uid) item d)) uid (mi_id item)
           = [\<lparr>cart_id = fresh_id be, cart_student_id = uid,
               cart_menu_item_id = mi_id item, cart_quantity = 1\<rparr>]"
proof -
  have l: "cart_lookup be uid item d = None"
    using assms(1) by (simp add: cart_lookup_def single_Nil)
  then have h: "handleAddToCart be True (Some uid) item d = cart_write be uid item None d"
    by (simp add: handleAddToCart_def)
  have ok: "cart_insert_ok be"
    using assms unfolding h by (simp add: cart_write_def split: if_splits)
  have "cart_items (snd (cart_write be uid item None d))
          = cart_items d @ [\<lparr>cart_id = fresh_id be, cart_student_id = uid,
               cart_menu_item_id = mi_id item, cart_quantity = 1\<rparr>]"
    using assms(1) ok by (simp add: cart_write_def)
  then show ?thesis unfolding h using assms(1) by (simp add: cart_entries_def)
qed

lemma add_calls_existing:
  assumes "cart_entries d uid (mi_id item) = [r]"
    and "list_all (\<lambda>fx. fx = [Toast_success ''Added to cart!'']) (fst (add_calls bes uid item d))"
  shows "map cart_quantity (cart_entries (snd (add_calls bes uid item d)) uid (mi_id item))
           = [cart_quantity r + int (length bes)]"
  using assms
proof (induction bes arbitrary: d r)
  case Nil
  then show ?case by simp
next
  case (Cons be bes)
  let ?d1 = "snd (handleAddToCart be True (Some uid) item d)"
  from Cons.prems(2) have ok: "fst (handleAddToCart be True (Some uid) item d) = [Toast_success ''Added to cart!'']"
    and rest: "list_all (\<lambda>fx. fx = [Toast_success ''Added to cart!'']) (fst (add_calls bes uid item ?d1))"
    by (simp_all add: Let_def)
  from Cons.prems(1) ok have "cart_entries ?d1 uid (mi_id item) = [r\<lparr>cart_quantity := cart_quantity r + 1\<rparr>]"
    by (rule add_existing)
  from Cons.IH [OF this rest] show ?case by (simp add: Let_def)
qed

lemma updateQuantity_keeps_ok:
  "cart_quantities_ok d \<Longrightarrow> cart_quantities_ok (snd (updateQuantity be itemId q d))"
  by (auto simp: updateQuantity_def cart_quantities_ok_def list_all_iff)

lemma removeItem_keeps_ok:
  "cart_quantities_ok d \<Longrightarrow> cart_quantities_ok (snd (removeItem be itemId d))"
  by (auto simp: removeItem_def cart_quantities_ok_def list_all_iff)

lemma handleCheckout_keeps_ok:
  "cart_quantities_ok d \<Longrightarrow> cart_quantities_ok (snd (handleCheckout be user cs pm d))"
  by (cases user) (auto simp: handleCheckout_def Let_def cart_quantities_ok_def list_all_iff)

lemma cart_write_keeps_ok:
  assumes "cart_quantities_ok d" and "existing = None \<or> (\<exists>r \<in> set (cart_items d). existing = Some r)"
  shows "cart_quantities_ok (snd (cart_write be uid item existing d))"
proof (cases existing)
  case None
  then show ?thesis using assms(1) by (simp add: cart_write_def cart_quantities_ok_def)
next
  case (Some r)
  with assms(2) have "r \<in> set (cart_items d)" by simp
  with assms(1) have "1 \<le> cart_quantity r" by (simp add: cart_quantities_ok_def list_all_iff)
  then show ?thesis using assms(1) Some
    by (auto simp: cart_write_def cart_quantities_ok_def list_all_iff)
qed

lemma handleAddToCart_keeps_ok:
  assumes "cart_quantities_ok d"
  shows "cart_quantities_ok (snd (handleAddToCart be a user item d))"
proof (cases user)
  case None
  then show ?thesis using assms by (simp add: handleAddToCart_def)
next
  case (Some uid)
  have "cart_lookup be uid item d = None
        \<or> (\<exists>r \<in> set (cart_items d). cart_lookup be uid item d = Some r)"
  proof (cases "cart_lookup be uid item d")
    case None
    then show ?thesis by simp
  next
    case (Some r)
    then have "single (cart_entries d uid (mi_id item)) = Some r"
      by (simp add: cart_lookup_def split: if_splits)
    then have "r \<in> set (cart_items d)"
      by (auto dest!: single_Some_mem simp: cart_entries_def)
    with Some show ?thesis by simp
  qed
  with assms have "cart_quantities_ok (snd (cart_write be uid item (cart_lookup be uid item d) d))"
    by (rule cart_write_keeps_ok)
  then show ?thesis using assms Some by (simp add: handleAddToCart_def)
qed

lemma add_sample:
  "handleAddToCart accepting True (Some ''u2'') thali sample_db
     = ([Toast_success ''Added to cart!''],
        sample_db\<lparr>cart_items := cart_items sample_db @
           [\<lparr>cart_id = ''o1'', cart_student_id = ''u2'', cart_menu_item_id = ''m1'', cart_quantity = 1\<rparr>]\<rparr>)"
  by (simp add: handleAddToCart_def cart_lookup_def cart_write_def cart_entries_def single_def
      sample_db_def thali_def accepting_def)

lemma buttons_legal:
  "from \<in> set statuses \<Longrightarrow> to \<in> set (status_buttons True from) \<longleftrightarrow> legal_transition from to"
  unfolding statuses_def
  apply simp
  apply (elim disjE)
  apply (simp_all add: status_buttons_def legal_transition_def)
  done

lemma is_admin_sample:
  "is_admin sample_db (Some ''a1'')" "\<not> is_admin sample_db (Some ''u1'')"
  "is_admin placed_db (Some ''a1'')" "\<not> is_admin placed_db (Some ''u1'')"
  by (simp_all add: is_admin_def sample_db_def placed_db_def)

lemma update_admin:
  assumes "is_admin d caller" "orders_update_ok be" "newStatus \<in> set statuses"
  shows "updateOrderStatus be caller orderId newStatus d
        = ([Toast_success ''Order status updated'', Load_orders],
           d\<lparr>orders := map (\<lambda>ord. if ord_id ord = orderId
                                     then ord\<lparr>ord_status := newStatus, ord_updated_at := db_now be\<rparr>
                                     else ord)
                             (orders d)\<rparr>)"
  using assms by (simp add: updateOrderStatus_def Let_def)

lemma update_not_admin:
  assumes "\<not> is_admin d caller" "orders_update_ok be"
  shows "updateOrderStatus be caller orderId newStatus d
           = ([Toast_success ''Order status updated'', Load_orders], d)"
proof -
  have "map (\<lambda>ord. ord) (orders d) = orders d" by simp
  with assms show ?thesis by (simp add: updateOrderStatus_def Let_def)
qed

lemma update_sample:
  "updateOrderStatus later (Some ''a1'') ''o1'' status' (placed_db\<lparr>orders := [sample_order status]\<rparr>)
     = (if status' \<in> set statuses
        then ([Toast_success ''Order status updated'', Load_orders],
              placed_db\<lparr>orders := [(sample_order status')\<lparr>ord_updated_at := 1700001123500\<rparr>]\<rparr>)
        else ([Toast_error ''Failed to update order status''], placed_db\<lparr>orders := [sample_order status]\<rparr>))"
proof -
  have a: "is_admin (placed_db\<lparr>orders := [sample_order status]\<rparr>) (Some ''a1'')"
    by (simp add: is_admin_def sample_db_def placed_db_def)
  have ok: "orders_update_ok later" "db_now later = 1700001123500"
    by (simp_all add: later_def accepting_def)
  have i: "ord_id (sample_order status) = ''o1''" by (simp add: sample_order_def)
  have u: "(sample_order status)\<lparr>ord_status := status', ord_updated_at := 1700001123500\<rparr>
             = (sample_order status')\<lparr>ord_updated_at := 1700001123500\<rparr>"
    by (simp add: sample_order_def)
  show ?thesis by (simp add: updateOrderStatus_def Let_def a ok i u)
qed

section \<open>Checkout on an empty cart\<close>

text \<open>
  C3, as amended: for a signed-in student whose cart page holds no entries, checkout
  fails with the empty-cart error and leaves the store, its orders included, exactly as
  it was; and a cart page that has just loaded from a store without cart rows of the
  student holds no entries. Checkout looks at the entries of the page and does not read
  the stored cart again.
\<close>

theorem checkout_empty_cart:
  "handleCheckout be (Some uid) [] pm d = ([Toast_error ''Your cart is empty''], d)
   \<and> (filter (\<lambda>c. cart_student_id c = uid) (cart_items d) = [] \<longrightarrow>
        handleCheckout be (Some uid) (loadCart d uid) pm d = ([Toast_error ''Your cart is empty''], d))"
  by (simp add: handleCheckout_def loadCart_def List.map_filter_simps)

theorem checkout_empty_cart_witness:
  "filter (\<lambda>c. cart_student_id c = ''u2'') (cart_items sample_db) = []
   \<and> handleCheckout accepting (Some ''u2'') (loadCart sample_db ''u2'') Card sample_db
       = ([Toast_error ''Your cart is empty''], sample_db)
   \<and> orders (snd (handleCheckout accepting (Some ''u2'') (loadCart sample_db ''u2'') Card sample_db)) = []"
proof -
  have none: "filter (\<lambda>c. cart_student_id c = ''u2'') (cart_items sample_db) = []"
    by (simp add: sample_db_def)
  with checkout_empty_cart [of accepting "''u2''" Card sample_db]
  have "handleCheckout accepting (Some ''u2'') (loadCart sample_db ''u2'') Card sample_db
          = ([Toast_error ''Your cart is empty''], sample_db)"
    by blast
  with none show ?thesis by (simp add: sample_db_def)
qed

text \<open>
  C3 as stated fails: after the student's checkout the stored cart has no rows of the
  student; a cart page that still holds the two entries checks out again a day later, and
  the store has a second order.
\<close>

theorem stale_cart_counterexample:
  "filter (\<lambda>c. cart_student_id c = ''u1'') (cart_items placed_db) = []
   \<and> fst (checkout next_day (Some ''u1'') sample_cart Upi placed_db)
       = [Toast_success ''Order placed successfully!'', Navigate ''/orders'']
   \<and> map ord_id (orders (snd (checkout next_day (Some ''u1'') sample_cart Upi placed_db)))
       = [''o1'', ''o2'']"
proof -
  have ne: "sample_cart \<noteq> []" by (simp add: sample_cart_def)
  have ok: "orders_insert_ok next_day" "order_items_insert_ok next_day" "cart_delete_ok next_day"
    by (simp_all add: next_day_def accepting_def)
  have 1: "filter (\<lambda>c. cart_student_id c = ''u1'') (cart_items placed_db) = []"
    by (simp add: placed_db_def)
  have 2: "fst (checkout next_day (Some ''u1'') sample_cart Upi placed_db)
       = [Toast_success ''Order placed successfully!'', Navigate ''/orders'']"
    unfolding checkout_next_day using ne ok by (simp add: handleCheckout_def Let_def)
  have "orders (snd (handleCheckout next_day (Some ''u1'') sample_cart Upi placed_db))
          = orders placed_db @ [new_order next_day ''u1'' sample_cart Upi]"
    using ne ok(1,2) by (rule checkout_success_store(1))
  then have 3: "map ord_id (orders (snd (checkout next_day (Some ''u1'') sample_cart Upi placed_db)))
       = [''o1'', ''o2'']"
    unfolding checkout_next_day
    by (simp add: placed_db_def sample_order_def new_order_def Let_def next_day_def)
  show ?thesis by (intro conjI) (fact 1 2 3)+
qed

section \<open>Checkout when the order items cannot be written\<close>

text \<open>
  C1, as amended: when the order row has been inserted and the insertion of the order
  items fails, checkout reports "Failed to create order items" and stops there. The store
  is the old one with the new order row added: the order is neither rolled back nor marked
  failed, no item is written and the cart is not cleared.
\<close>

theorem checkout_items_failure_keeps_order:
  assumes "cartItems \<noteq> []" and "orders_insert_ok be" and "\<not> order_items_insert_ok be"
  shows "handleCheckout be (Some uid) cartItems pm d
           = ([Toast_error ''Failed to create order items''],
              d\<lparr>orders := orders d @ [new_order be uid cartItems pm]\<rparr>)"
  using assms by (simp add: handleCheckout_def Let_def)

theorem checkout_items_failure_keeps_order_witness:
  "sample_cart \<noteq> [] \<and> orders_insert_ok (accepting\<lparr>order_items_insert_ok := False\<rparr>)
   \<and> \<not> order_items_insert_ok (accepting\<lparr>order_items_insert_ok := False\<rparr>)
   \<and> handleCheckout (accepting\<lparr>order_items_insert_ok := False\<rparr>) (Some ''u1'') sample_cart Upi sample_db
       = ([Toast_error ''Failed to create order items''],
          sample_db\<lparr>orders := [sample_order ''pending'']\<rparr>)"
proof -
  have h1: "sample_cart \<noteq> []" by (simp add: sample_cart_def)
  have h2: "orders_insert_ok (accepting\<lparr>order_items_insert_ok := False\<rparr>)"
    by (simp add: accepting_def)
  have h3: "\<not> order_items_insert_ok (accepting\<lparr>order_items_insert_ok := False\<rparr>)"
    by simp
  have o: "new_order (accepting\<lparr>order_items_insert_ok := False\<rparr>) ''u1'' sample_cart Upi
             = sample_order ''pending''"
    using new_order_sample by (simp add: new_order_def)
  have e: "orders sample_db = []" by (simp add: sample_db_def)
  show ?thesis
    using checkout_items_failure_keeps_order [OF h1 h2 h3, of "''u1''" Upi sample_db] h1 h2 h3
    by (simp add: o e)
qed

text \<open>
  C1 as stated fails: for the sample cart and a store that rejects the order items, the
  call ends with the error and the store shows the order \<open>o1\<close> without any line.
\<close>

theorem checkout_items_failure_counterexample:
  "fst (handleCheckout (accepting\<lparr>order_items_insert_ok := False\<rparr>) (Some ''u1'') sample_cart Upi sample_db)
     = [Toast_error ''Failed to create order items'']
   \<and> map ord_id (orders (snd (handleCheckout (accepting\<lparr>order_items_insert_ok := False\<rparr>)
                                  (Some ''u1'') sample_cart Upi sample_db))) = [''o1'']
   \<and> order_lines (snd (handleCheckout (accepting\<lparr>order_items_insert_ok := False\<rparr>)
                          (Some ''u1'') sample_cart Upi sample_db)) ''o1'' = []"
  by (simp add: handleCheckout_def Let_def accepting_def sample_cart_def sample_db_def
      new_order_def order_lines_def)

section \<open>Checkout when the cart cannot be cleared\<close>

text \<open>
  C10: when the order and its items have been written and the deletion of the cart rows
  fails, checkout still succeeds: the failure goes to the console, the success message is
  shown, the page moves to the orders, and the store holds the new order with its items.
  Of the writes of checkout this is the only one whose failure shows no error: an error
  message appears exactly when the cart is empty or the order or its items are rejected.
\<close>

theorem checkout_cart_clear_failure:
  "(cartItems \<noteq> [] \<and> orders_insert_ok be \<and> order_items_insert_ok be \<and> \<not> cart_delete_ok be \<longrightarrow>
      handleCheckout be (Some uid) cartItems pm d
        = ([Console_error ''Failed to clear cart'',
            Toast_success ''Order placed successfully!'', Navigate ''/orders''],
           d\<lparr>orders := orders d @ [new_order be uid cartItems pm],
             order_items := order_items d @ orderItems (fresh_id be) cartItems\<rparr>))
   \<and> ((\<exists>msg. Toast_error msg \<in> set (fst (handleCheckout be (Some uid) cartItems pm d)))
        \<longleftrightarrow> (cartItems = [] \<or> \<not> orders_insert_ok be \<or> \<not> order_items_insert_ok be))"
  by (simp add: handleCheckout_def Let_def new_order_def)

theorem checkout_cart_clear_failure_witness:
  "sample_cart \<noteq> [] \<and> orders_insert_ok (accepting\<lparr>cart_delete_ok := False\<rparr>)
   \<and> order_items_insert_ok (accepting\<lparr>cart_delete_ok := False\<rparr>)
   \<and> \<not> cart_delete_ok (accepting\<lparr>cart_delete_ok := False\<rparr>)
   \<and> handleCheckout (accepting\<lparr>cart_delete_ok := False\<rparr>) (Some ''u1'') sample_cart Upi sample_db
       = ([Console_error ''Failed to clear cart'',
           Toast_success ''Order placed successfully!'', Navigate ''/orders''],
          sample_db\<lparr>orders := [sample_order ''pending''], order_items := sample_lines\<rparr>)
   \<and> \<not> (\<exists>msg. Toast_error msg \<in> set (fst (handleCheckout (accepting\<lparr>cart_delete_ok := False\<rparr>)
                                              (Some ''u1'') sample_cart Upi sample_db)))"
proof -
  let ?be = "accepting\<lparr>cart_delete_ok := False\<rparr>"
  have h: "sample_cart \<noteq> []" "orders_insert_ok ?be" "order_items_insert_ok ?be" "\<not> cart_delete_ok ?be"
    by (simp_all add: sample_cart_def accepting_def)
  have o: "new_order ?be ''u1'' sample_cart Upi = sample_order ''pending''"
    using new_order_sample by (simp add: new_order_def)
  have i: "orderItems (fresh_id accepting) sample_cart = sample_lines"
    using orderItems_sample by (simp add: accepting_def)
  have e: "orders sample_db = []" "order_items sample_db = []" by (simp_all add: sample_db_def)
  show ?thesis
    using checkout_cart_clear_failure [of sample_cart ?be "''u1''" Upi sample_db] h
    by (simp add: o i e)
qed

section \<open>Price snapshot\<close>

text \<open>
  C7, as amended: a successful checkout appends one order item per cart entry whose
  \<open>price_at_order\<close> is the price that the cart page holds for the entry's menu item, read
  when the page loaded the cart; for a cart that the page has just loaded from the store
  this is the price the catalog holds for that item. Whatever the catalog becomes
  afterwards, the stored order items and the line amounts shown for any order are the
  same.
\<close>

theorem price_snapshot:
  assumes "handleCheckout be (Some uid) cartItems pm d = (fx, d')"
    and "Toast_success ''Order placed successfully!'' \<in> set fx"
  shows "order_items d' = order_items d @ orderItems (fresh_id be) cartItems
       \<and> map oi_price_at_order (orderItems (fresh_id be) cartItems)
           = map (\<lambda>item. mi_price (ci_menu_item item)) cartItems
       \<and> (cartItems = loadCart d uid \<longrightarrow>
            (\<forall>item\<in>set cartItems.
               map_option mi_price (find (\<lambda>m. mi_id m = mi_id (ci_menu_item item)) (menu_items d))
                 = Some (mi_price (ci_menu_item item))))
       \<and> order_items (d'\<lparr>menu_items := catalog\<rparr>) = order_items d'
       \<and> line_amounts (d'\<lparr>menu_items := catalog\<rparr>) order_id = line_amounts d' order_id"
proof -
  from assms have ok: "cartItems \<noteq> []" "orders_insert_ok be" "order_items_insert_ok be"
    using checkout_success_iff [of be "Some uid" cartItems pm d] by simp_all
  have "order_items d' = order_items d @ orderItems (fresh_id be) cartItems"
    using checkout_success_store(2) [OF ok, of uid pm d] assms(1) by simp
  moreover have "map oi_price_at_order (orderItems (fresh_id be) cartItems)
           = map (\<lambda>item. mi_price (ci_menu_item item)) cartItems"
    by (simp add: orderItems_def comp_def)
  moreover have "cartItems = loadCart d uid \<longrightarrow>
            (\<forall>item\<in>set cartItems.
               map_option mi_price (find (\<lambda>m. mi_id m = mi_id (ci_menu_item item)) (menu_items d))
                 = Some (mi_price (ci_menu_item item)))"
    by (auto simp: loadCart_price)
  moreover have "line_amounts (d'\<lparr>menu_items := catalog\<rparr>) order_id = line_amounts d' order_id"
    by (simp add: line_amounts_def order_lines_def)
  ultimately show ?thesis by simp
qed

theorem price_snapshot_witness:
  "handleCheckout accepting (Some ''u1'') (loadCart sample_db ''u1'') Upi sample_db
     = ([Toast_success ''Order placed successfully!'', Navigate ''/orders''], placed_db)
   \<and> map oi_price_at_order (order_items placed_db) = [100, 150]
   \<and> map oi_price_at_order (order_items (placed_db\<lparr>menu_items := [thali\<lparr>mi_price := 120\<rparr>, biryani]\<rparr>))
       = [100, 150]
   \<and> line_amounts (placed_db\<lparr>menu_items := [thali\<lparr>mi_price := 120\<rparr>, biryani]\<rparr>) ''o1''
       = line_amounts placed_db ''o1''
   \<and> line_amounts placed_db ''o1'' = [200, 150]"
proof -
  have c: "handleCheckout accepting (Some ''u1'') (loadCart sample_db ''u1'') Upi sample_db
     = ([Toast_success ''Order placed successfully!'', Navigate ''/orders''], placed_db)"
    by (simp add: loadCart_sample checkout_sample)
  have s: "Toast_success ''Order placed successfully!''
             \<in> set [Toast_success ''Order placed successfully!'', Navigate ''/orders'']"
    by simp
  have p: "map oi_price_at_order (order_items placed_db) = [100, 150]"
    by (simp add: placed_db_def sample_lines_def)
  have l: "line_amounts placed_db ''o1'' = [200, 150]"
    by (simp add: line_amounts_def order_lines_def placed_db_def sample_lines_def double_eval)
  from price_snapshot [OF c s, of "[thali\<lparr>mi_price := 120\<rparr>, biryani]" "''o1''"]
  show ?thesis using c p l by simp
qed

text \<open>
  C7 as stated fails: the catalog holds the first dish at 120, the cart page still holds
  it at 100 from an earlier load; checkout succeeds and stores 100 as the
  \<open>price_at_order\<close> of that dish.
\<close>

theorem stale_price_counterexample:
  "map mi_price (menu_items (sample_db\<lparr>menu_items := [thali\<lparr>mi_price := 120\<rparr>, biryani]\<rparr>))
     = [120, 150]
   \<and> fst (checkout accepting (Some ''u1'') sample_cart Upi
             (sample_db\<lparr>menu_items := [thali\<lparr>mi_price := 120\<rparr>, biryani]\<rparr>))
       = [Toast_success ''Order placed successfully!'', Navigate ''/orders'']
   \<and> map oi_menu_item_id (order_items (snd (checkout accepting (Some ''u1'') sample_cart Upi
             (sample_db\<lparr>menu_items := [thali\<lparr>mi_price := 120\<rparr>, biryani]\<rparr>))))
       = [''m1'', ''m2'']
   \<and> map oi_price_at_order (order_items (snd (checkout accepting (Some ''u1'') sample_cart Upi
             (sample_db\<lparr>menu_items := [thali\<lparr>mi_price := 120\<rparr>, biryani]\<rparr>))))
       = [100, 150]"
proof -
  let ?d = "sample_db\<lparr>menu_items := [thali\<lparr>mi_price := 120\<rparr>, biryani]\<rparr>"
  have ne: "sample_cart \<noteq> []" by (simp add: sample_cart_def)
  have ok: "orders_insert_ok accepting" "order_items_insert_ok accepting" "cart_delete_ok accepting"
    by (simp_all add: accepting_def)
  have "order_number_free ?d (orderNumber (clock accepting))"
    by (simp add: order_number_free_def sample_db_def)
  with ok(1) have "accepting\<lparr>orders_insert_ok := orders_insert_ok accepting
      \<and> order_number_free ?d (orderNumber (clock accepting))\<rparr> = accepting"
    by simp
  then have c: "checkout accepting (Some ''u1'') sample_cart Upi ?d
                  = handleCheckout accepting (Some ''u1'') sample_cart Upi ?d"
    by (simp add: checkout_def)
  have 1: "map mi_price (menu_items ?d) = [120, 150]"
    by (simp add: biryani_def)
  have 2: "fst (checkout accepting (Some ''u1'') sample_cart Upi ?d)
       = [Toast_success ''Order placed successfully!'', Navigate ''/orders'']"
    unfolding c using ne ok by (simp add: handleCheckout_def Let_def)
  have i: "order_items (snd (handleCheckout accepting (Some ''u1'') sample_cart Upi ?d))
          = order_items ?d @ orderItems (fresh_id accepting) sample_cart"
    using ne ok(1,2) by (rule checkout_success_store(2))
  have s: "orderItems (fresh_id accepting) sample_cart = sample_lines"
    using orderItems_sample by (simp add: accepting_def)
  have 3: "map oi_menu_item_id (order_items (snd (checkout accepting (Some ''u1'') sample_cart Upi ?d)))
       = [''m1'', ''m2'']"
    unfolding c i s by (simp add: sample_db_def sample_lines_def)
  have 4: "map oi_price_at_order (order_items (snd (checkout accepting (Some ''u1'') sample_cart Upi ?d)))
       = [100, 150]"
    unfolding c i s by (simp add: sample_db_def sample_lines_def)
  show ?thesis by (intro conjI) (fact 1 2 3 4)+
qed

section \<open>Totals\<close>




section \<open>Order numbers\<close>

text \<open>
  C5, as amended: checkout takes the order number from the clock alone, \<open>ORD-\<close> followed
  by the last six decimal digits of the millisecond time, so that for times of at least
  six digits two order numbers are equal exactly when the times agree modulo one million.
  It checks no uniqueness and tries the insertion once: a successful checkout stores the
  number of its time, and when the number is already stored, so that the store refuses
  the order, checkout fails at once with "Failed to create order" and the store is
  unchanged. The order numbers of the store stay pairwise distinct, so any two successful
  checkouts have distinct order numbers: the store sees to that, not a retry.
\<close>

theorem order_number_from_clock:
  "(10 ^ 5 \<le> a \<and> 10 ^ 5 \<le> b \<longrightarrow> (orderNumber a = orderNumber b \<longleftrightarrow> a mod 10 ^ 6 = b mod 10 ^ 6))
   \<and> (Toast_success ''Order placed successfully!'' \<in> set (fst (checkout be user cartItems pm d)) \<longrightarrow>
        map ord_order_number (orders (snd (checkout be user cartItems pm d)))
          = map ord_order_number (orders d) @ [orderNumber (clock be)])
   \<and> (cartItems \<noteq> [] \<and> \<not> order_number_free d (orderNumber (clock be)) \<longrightarrow>
        checkout be (Some uid) cartItems pm d = ([Toast_error ''Failed to create order''], d))
   \<and> (distinct (map ord_order_number (orders d)) \<longrightarrow>
        distinct (map ord_order_number (orders (snd (checkout be user cartItems pm d)))))"
proof (intro conjI impI; (elim conjE)?)
  assume "10 ^ 5 \<le> a" "10 ^ 5 \<le> b"
  then show "orderNumber a = orderNumber b \<longleftrightarrow> a mod 10 ^ 6 = b mod 10 ^ 6"
    by (rule orderNumber_eq_iff)
next
  assume "Toast_success ''Order placed successfully!'' \<in> set (fst (checkout be user cartItems pm d))"
  then show "map ord_order_number (orders (snd (checkout be user cartItems pm d)))
          = map ord_order_number (orders d) @ [orderNumber (clock be)]"
    unfolding checkout_order_numbers by simp
next
  assume "cartItems \<noteq> []" "\<not> order_number_free d (orderNumber (clock be))"
  then show "checkout be (Some uid) cartItems pm d = ([Toast_error ''Failed to create order''], d)"
    by (simp add: checkout_unfold handleCheckout_def)
next
  assume "distinct (map ord_order_number (orders d))"
  then show "distinct (map ord_order_number (orders (snd (checkout be user cartItems pm d))))"
    by (rule checkout_keeps_distinct)
qed

theorem order_number_from_clock_witness:
  "(10::nat) ^ 5 \<le> 1700000123456 \<and> (10::nat) ^ 5 \<le> 1700001123456
   \<and> (1700000123456::nat) mod 10 ^ 6 = 1700001123456 mod 10 ^ 6
   \<and> orderNumber 1700000123456 = orderNumber 1700001123456
   \<and> (1700000123456::nat) mod 10 ^ 6 \<noteq> 1700086523456 mod 10 ^ 6
   \<and> orderNumber 1700000123456 \<noteq> orderNumber 1700086523456
   \<and> Toast_success ''Order placed successfully!''
        \<in> set (fst (checkout next_day (Some ''u1'') sample_cart Upi placed_db))
   \<and> map ord_order_number (orders (snd (checkout next_day (Some ''u1'') sample_cart Upi placed_db)))
       = [''ORD-123456'', ''ORD-523456'']
   \<and> sample_cart \<noteq> [] \<and> \<not> order_number_free placed_db (orderNumber (clock later))
   \<and> checkout later (Some ''u2'') sample_cart Card placed_db
       = ([Toast_error ''Failed to create order''], placed_db)
   \<and> distinct (map ord_order_number (orders placed_db))
   \<and> distinct (map ord_order_number
        (orders (snd (checkout next_day (Some ''u1'') sample_cart Upi placed_db))))"
proof -
  have a: "(10::nat) ^ 5 \<le> 1700000123456" by simp
  have b: "(10::nat) ^ 5 \<le> 1700001123456" by simp
  have b': "(10::nat) ^ 5 \<le> 1700086523456" by simp
  have m: "(1700000123456::nat) mod 10 ^ 6 = 1700001123456 mod 10 ^ 6" by simp
  have m': "(1700000123456::nat) mod 10 ^ 6 \<noteq> 1700086523456 mod 10 ^ 6" by simp
  have ne: "sample_cart \<noteq> []" by (simp add: sample_cart_def)
  have ok: "orders_insert_ok next_day" "order_items_insert_ok next_day" "cart_delete_ok next_day"
    by (simp_all add: next_day_def accepting_def)
  have n: "map ord_order_number (orders placed_db) = [''ORD-123456'']"
    by (simp add: placed_db_def sample_order_def)
  have cl: "orderNumber (clock next_day) = ''ORD-523456''" "orderNumber (clock later) = ''ORD-123456''"
    by (simp_all add: next_day_def later_def orderNumber_sample)
  have s: "Toast_success ''Order placed successfully!''
        \<in> set (fst (checkout next_day (Some ''u1'') sample_cart Upi placed_db))"
    unfolding checkout_next_day using ne ok by (simp add: handleCheckout_def Let_def)
  have taken: "\<not> order_number_free placed_db (orderNumber (clock later))"
    unfolding order_number_free_def n cl by simp
  have dist: "distinct (map ord_order_number (orders placed_db))"
    unfolding n by simp
  note t1 = order_number_from_clock [of 1700000123456 1700001123456 next_day "Some ''u1''"
      sample_cart Upi placed_db "''u1''"]
  note t2 = order_number_from_clock [of 1700000123456 1700086523456 later "Some ''u2''"
      sample_cart Card placed_db "''u2''"]
  from t1 a b m have 1: "orderNumber 1700000123456 = orderNumber 1700001123456" by blast
  from t2 a b' m' have 2: "orderNumber 1700000123456 \<noteq> orderNumber 1700086523456" by blast
  from t1 s have "map ord_order_number (orders (snd (checkout next_day (Some ''u1'') sample_cart Upi placed_db)))
       = map ord_order_number (orders placed_db) @ [orderNumber (clock next_day)]"
    by blast
  then have 3: "map ord_order_number (orders (snd (checkout next_day (Some ''u1'') sample_cart Upi placed_db)))
       = [''ORD-123456'', ''ORD-523456'']"
    unfolding n cl by simp
  from t2 ne taken have 4: "checkout later (Some ''u2'') sample_cart Card placed_db
       = ([Toast_error ''Failed to create order''], placed_db)"
    by blast
  from t1 dist have 5: "distinct (map ord_order_number
        (orders (snd (checkout next_day (Some ''u1'') sample_cart Upi placed_db))))"
    by blast
  show ?thesis by (intro conjI) (fact a b m 1 m' 2 s 3 ne taken 4 dist 5)+
qed

text \<open>
  C5 as stated fails: a checkout a thousand seconds after the first, with a store that
  reports no other error, gets the order number of the first; the store refuses it, and
  checkout ends at once with "Failed to create order", the store unchanged, without
  another attempt under a fresh suffix.
\<close>

theorem no_retry_counterexample:
  "orders_insert_ok later \<and> order_items_insert_ok later \<and> cart_delete_ok later
   \<and> map ord_order_number (orders placed_db) = [''ORD-123456'']
   \<and> orderNumber (clock later) = ''ORD-123456''
   \<and> checkout later (Some ''u2'') sample_cart Card placed_db
       = ([Toast_error ''Failed to create order''], placed_db)"
proof -
  have ok: "orders_insert_ok later" "order_items_insert_ok later" "cart_delete_ok later"
    by (simp_all add: later_def accepting_def)
  have n: "map ord_order_number (orders placed_db) = [''ORD-123456'']"
    by (simp add: placed_db_def sample_order_def)
  have l: "orderNumber (clock later) = ''ORD-123456''"
    by (simp add: later_def orderNumber_sample)
  have ne: "sample_cart \<noteq> []" by (simp add: sample_cart_def)
  have "\<not> order_number_free placed_db (orderNumber (clock later))"
    unfolding order_number_free_def n l by simp
  then have c: "checkout later (Some ''u2'') sample_cart Card placed_db
       = ([Toast_error ''Failed to create order''], placed_db)"
    using ne by (simp add: checkout_unfold handleCheckout_def)
  show ?thesis by (intro conjI) (fact ok n l c)+
qed

section \<open>Cart quantities\<close>

text \<open>
  C9, as amended: for a signed-in student and calls that run one after the other, a
  successful addition of an item whose cart entry exists raises the quantity of that
  entry by exactly one, and a successful addition of an item without an entry creates the
  entry with quantity one; so after a sequence of successful additions of the same item
  that starts without an entry, none of them begun before the one before it has ended,
  the student has one entry for the item and its quantity is the number of additions (and
  no entry after none). A call whose lookup fails although the entry exists attempts an
  insertion, which the store refuses, and is not successful.
\<close>

theorem add_to_cart_counts:
  "(cart_entries d uid (mi_id item) = [r]
      \<and> fst (handleAddToCart be True (Some uid) item d) = [Toast_success ''Added to cart!''] \<longrightarrow>
      cart_entries (snd (handleAddToCart be True (Some uid) item d)) uid (mi_id item)
        = [r\<lparr>cart_quantity := cart_quantity r + 1\<rparr>])
   \<and> (cart_entries d uid (mi_id item) = []
      \<and> fst (handleAddToCart be True (Some uid) item d) = [Toast_success ''Added to cart!''] \<longrightarrow>
      cart_entries (snd (handleAddToCart be True (Some uid) item d)) uid (mi_id item)
        = [\<lparr>cart_id = fresh_id be, cart_student_id = uid,
            cart_menu_item_id = mi_id item, cart_quantity = 1\<rparr>])
   \<and> (cart_entries d uid (mi_id item) = []
        \<and> list_all (\<lambda>fx. fx = [Toast_success ''Added to cart!'']) (fst (add_calls bes uid item d)) \<longrightarrow>
      map cart_quantity (cart_entries (snd (add_calls bes uid item d)) uid (mi_id item))
        = (if bes = [] then [] else [int (length bes)]))"
proof (intro conjI impI; (elim conjE)?)
  assume "cart_entries d uid (mi_id item) = [r]"
    "fst (handleAddToCart be True (Some uid) item d) = [Toast_success ''Added to cart!'']"
  then show "cart_entries (snd (handleAddToCart be True (Some uid) item d)) uid (mi_id item)
        = [r\<lparr>cart_quantity := cart_quantity r + 1\<rparr>]"
    by (rule add_existing)
next
  assume "cart_entries d uid (mi_id item) = []"
    "fst (handleAddToCart be True (Some uid) item d) = [Toast_success ''Added to cart!'']"
  then show "cart_entries (snd (handleAddToCart be True (Some uid) item d)) uid (mi_id item)
        = [\<lparr>cart_id = fresh_id be, cart_student_id = uid,
            cart_menu_item_id = mi_id item, cart_quantity = 1\<rparr>]"
    by (rule add_new)
next
  assume none: "cart_entries d uid (mi_id item) = []"
    and all: "list_all (\<lambda>fx. fx = [Toast_success ''Added to cart!'']) (fst (add_calls bes uid item d))"
  show "map cart_quantity (cart_entries (snd (add_calls bes uid item d)) uid (mi_id item))
        = (if bes = [] then [] else [int (length bes)])"
  proof (cases bes)
    case Nil
    then show ?thesis using none by simp
  next
    case (Cons be' bes')
    let ?d1 = "snd (handleAddToCart be' True (Some uid) item d)"
    from all Cons have ok: "fst (handleAddToCart be' True (Some uid) item d) = [Toast_success ''Added to cart!'']"
      and rest: "list_all (\<lambda>fx. fx = [Toast_success ''Added to cart!'']) (fst (add_calls bes' uid item ?d1))"
      by (simp_all add: Let_def)
    from none ok have "cart_entries ?d1 uid (mi_id item)
           = [\<lparr>cart_id = fresh_id be', cart_student_id = uid,
               cart_menu_item_id = mi_id item, cart_quantity = 1\<rparr>]"
      by (rule add_new)
    from add_calls_existing [OF this rest] show ?thesis using Cons by (simp add: Let_def)
  qed
qed

theorem add_to_cart_counts_witness:
  "cart_entries sample_db ''u1'' (mi_id thali)
     = [\<lparr>cart_id = ''c1'', cart_student_id = ''u1'', cart_menu_item_id = ''m1'', cart_quantity = 2\<rparr>]
   \<and> fst (handleAddToCart accepting True (Some ''u1'') thali sample_db) = [Toast_success ''Added to cart!'']
   \<and> cart_entries (snd (handleAddToCart accepting True (Some ''u1'') thali sample_db)) ''u1'' (mi_id thali)
       = [\<lparr>cart_id = ''c1'', cart_student_id = ''u1'', cart_menu_item_id = ''m1'', cart_quantity = 3\<rparr>]
   \<and> cart_entries sample_db ''u2'' (mi_id thali) = []
   \<and> fst (handleAddToCart accepting True (Some ''u2'') thali sample_db) = [Toast_success ''Added to cart!'']
   \<and> cart_entries (snd (handleAddToCart accepting True (Some ''u2'') thali sample_db)) ''u2'' (mi_id thali)
       = [\<lparr>cart_id = ''o1'', cart_student_id = ''u2'', cart_menu_item_id = ''m1'', cart_quantity = 1\<rparr>]
   \<and> list_all (\<lambda>fx. fx = [Toast_success ''Added to cart!''])
        (fst (add_calls [accepting, accepting, accepting] ''u2'' thali sample_db))
   \<and> map cart_quantity
        (cart_entries (snd (add_calls [accepting, accepting, accepting] ''u2'' thali sample_db))
           ''u2'' (mi_id thali)) = [3]"
proof -
  let ?r = "\<lparr>cart_id = ''c1'', cart_student_id = ''u1'', cart_menu_item_id = ''m1'', cart_quantity = 2\<rparr>"
  have e1: "cart_entries sample_db ''u1'' (mi_id thali) = [?r]"
    by (simp add: cart_entries_def sample_db_def thali_def)
  have e2: "cart_entries sample_db ''u2'' (mi_id thali) = []"
    by (simp add: cart_entries_def sample_db_def)
  have ok: "cart_select_ok accepting" "cart_update_ok accepting" "cart_insert_ok accepting"
    "fresh_id accepting = ''o1''"
    by (simp_all add: accepting_def)
  have m: "mi_id thali = ''m1''" by (simp add: thali_def)
  have s1: "fst (handleAddToCart accepting True (Some ''u1'') thali sample_db) = [Toast_success ''Added to cart!'']"
    by (simp add: handleAddToCart_def cart_lookup_def cart_write_def e1 single_def ok)
  have s2: "fst (handleAddToCart accepting True (Some ''u2'') thali sample_db) = [Toast_success ''Added to cart!'']"
    by (simp add: add_sample)
  have s: "list_all (\<lambda>fx. fx = [Toast_success ''Added to cart!''])
        (fst (add_calls [accepting, accepting, accepting] ''u2'' thali sample_db))"
    by (simp add: Let_def handleAddToCart_def cart_lookup_def cart_write_def cart_entries_def
        single_def sample_db_def m ok)
  note t1 = add_to_cart_counts [of sample_db "''u1''" thali ?r accepting "[]"]
  note t2 = add_to_cart_counts [of sample_db "''u2''" thali ?r accepting "[accepting, accepting, accepting]"]
  from t1 e1 s1 have 1: "cart_entries (snd (handleAddToCart accepting True (Some ''u1'') thali sample_db)) ''u1'' (mi_id thali)
       = [\<lparr>cart_id = ''c1'', cart_student_id = ''u1'', cart_menu_item_id = ''m1'', cart_quantity = 3\<rparr>]"
    by simp
  from t2 e2 s2 have 2: "cart_entries (snd (handleAddToCart accepting True (Some ''u2'') thali sample_db)) ''u2'' (mi_id thali)
       = [\<lparr>cart_id = ''o1'', cart_student_id = ''u2'', cart_menu_item_id = ''m1'', cart_quantity = 1\<rparr>]"
    by (simp add: ok(4) m)
  from t2 e2 s have 3: "map cart_quantity
        (cart_entries (snd (add_calls [accepting, accepting, accepting] ''u2'' thali sample_db))
           ''u2'' (mi_id thali)) = [3]"
    by simp
  show ?thesis by (intro conjI) (fact e1 s1 1 e2 s2 2 s 3)+
qed

text \<open>
  C9 as stated fails for calls that overlap: after one addition, two further additions
  whose reads both come before their writes are both successful, and the quantity is two
  after three successful additions.
\<close>

theorem lost_update_counterexample:
  "cart_entries sample_db ''u2'' (mi_id thali) = []
   \<and> fst (handleAddToCart accepting True (Some ''u2'') thali sample_db) = [Toast_success ''Added to cart!'']
   \<and> fst (add_overlapped accepting accepting ''u2'' thali
             (snd (handleAddToCart accepting True (Some ''u2'') thali sample_db)))
       = [[Toast_success ''Added to cart!''], [Toast_success ''Added to cart!'']]
   \<and> map cart_quantity
        (cart_entries (snd (add_overlapped accepting accepting ''u2'' thali
                              (snd (handleAddToCart accepting True (Some ''u2'') thali sample_db))))
           ''u2'' (mi_id thali)) = [2]"
proof -
  let ?d1 = "sample_db\<lparr>cart_items := cart_items sample_db @
           [\<lparr>cart_id = ''o1'', cart_student_id = ''u2'', cart_menu_item_id = ''m1'', cart_quantity = 1\<rparr>]\<rparr>"
  have e2: "cart_entries sample_db ''u2'' (mi_id thali) = []"
    by (simp add: cart_entries_def sample_db_def)
  have ok: "cart_select_ok accepting" "cart_update_ok accepting" "cart_insert_ok accepting"
    by (simp_all add: accepting_def)
  have m: "mi_id thali = ''m1''" by (simp add: thali_def)
  have s2: "fst (handleAddToCart accepting True (Some ''u2'') thali sample_db) = [Toast_success ''Added to cart!'']"
    by (simp add: add_sample)
  have d1: "snd (handleAddToCart accepting True (Some ''u2'') thali sample_db) = ?d1"
    by (simp add: add_sample)
  have o: "add_overlapped accepting accepting ''u2'' thali ?d1
             = ([[Toast_success ''Added to cart!''], [Toast_success ''Added to cart!'']],
                sample_db\<lparr>cart_items := cart_items sample_db @
                  [\<lparr>cart_id = ''o1'', cart_student_id = ''u2'', cart_menu_item_id = ''m1'', cart_quantity = 2\<rparr>]\<rparr>)"
    by (simp add: add_overlapped_def Let_def cart_lookup_def cart_write_def cart_entries_def
        single_def sample_db_def m ok)
  have 3: "fst (add_overlapped accepting accepting ''u2'' thali
             (snd (handleAddToCart accepting True (Some ''u2'') thali sample_db)))
       = [[Toast_success ''Added to cart!''], [Toast_success ''Added to cart!'']]"
    unfolding d1 o by simp
  have 4: "map cart_quantity
        (cart_entries (snd (add_overlapped accepting accepting ''u2'' thali
                              (snd (handleAddToCart accepting True (Some ''u2'') thali sample_db))))
           ''u2'' (mi_id thali)) = [2]"
    unfolding d1 o by (simp add: cart_entries_def sample_db_def m)
  show ?thesis by (intro conjI) (fact e2 s2 3 4)+
qed

text \<open>
  C8, as amended: \<open>updateQuantity\<close> with a new quantity below one is ignored in silence:
  the call shows no error, reloads nothing and leaves the store as it was. No handler
  brings a quantity below one: when every cart row holds at least one unit, this is still
  so after \<open>updateQuantity\<close>, \<open>handleAddToCart\<close>, \<open>removeItem\<close> and \<open>handleCheckout\<close>.
\<close>

theorem updateQuantity_below_one:
  "(newQuantity < 1 \<longrightarrow> updateQuantity be itemId newQuantity d = ([], d))
   \<and> (cart_quantities_ok d \<longrightarrow>
        cart_quantities_ok (snd (updateQuantity be itemId quantity d))
      \<and> cart_quantities_ok (snd (handleAddToCart be isAuthenticated user item d))
      \<and> cart_quantities_ok (snd (removeItem be itemId d))
      \<and> cart_quantities_ok (snd (handleCheckout be user cartItems pm d)))"
  using updateQuantity_keeps_ok handleAddToCart_keeps_ok removeItem_keeps_ok handleCheckout_keeps_ok
  by (simp add: updateQuantity_def)

theorem updateQuantity_below_one_witness:
  "(0::int) < 1 \<and> updateQuantity accepting ''c2'' 0 sample_db = ([], sample_db)
   \<and> cart_quantities_ok sample_db
   \<and> map cart_quantity (cart_items (snd (updateQuantity accepting ''c1'' 1 sample_db))) = [1, 1]
   \<and> cart_quantities_ok (snd (updateQuantity accepting ''c1'' 1 sample_db))
   \<and> cart_quantities_ok (snd (handleAddToCart accepting True (Some ''u1'') thali sample_db))
   \<and> cart_quantities_ok (snd (removeItem accepting ''c1'' sample_db))
   \<and> cart_quantities_ok (snd (handleCheckout accepting (Some ''u1'') sample_cart Upi sample_db))"
proof -
  have ok: "cart_quantities_ok sample_db"
    by (simp add: cart_quantities_ok_def sample_db_def)
  have q: "map cart_quantity (cart_items (snd (updateQuantity accepting ''c1'' 1 sample_db))) = [1, 1]"
    by (simp add: updateQuantity_def accepting_def sample_db_def)
  note t1 = updateQuantity_below_one [of 0 accepting "''c2''" sample_db 1 True "Some ''u1''" thali sample_cart Upi]
  note t2 = updateQuantity_below_one [of 0 accepting "''c1''" sample_db 1 True "Some ''u1''" thali sample_cart Upi]
  from t1 have 1: "updateQuantity accepting ''c2'' 0 sample_db = ([], sample_db)" by simp
  from t2 ok have 2: "cart_quantities_ok (snd (updateQuantity accepting ''c1'' 1 sample_db))"
    "cart_quantities_ok (snd (handleAddToCart accepting True (Some ''u1'') thali sample_db))"
    "cart_quantities_ok (snd (removeItem accepting ''c1'' sample_db))"
    "cart_quantities_ok (snd (handleCheckout accepting (Some ''u1'') sample_cart Upi sample_db))"
    by blast+
  have z: "(0::int) < 1" by simp
  show ?thesis by (intro conjI) (fact z 1 ok q 2)+
qed

text \<open>
  C8 as stated fails: the call with quantity zero on the sample store reports nothing at
  all, so it does not fail with an error; the store is unchanged.
\<close>

theorem updateQuantity_below_one_counterexample:
  "fst (updateQuantity accepting ''c2'' 0 sample_db) = []
   \<and> snd (updateQuantity accepting ''c2'' 0 sample_db) = sample_db"
  by (simp add: updateQuantity_def)

section \<open>Status updates\<close>

text \<open>
  C2, as amended: \<open>updateOrderStatus\<close> itself checks no transition and reads no current
  status. For an administrator, a store that reports no error and a new status among the
  five, the orders with the given identifier get the new status whatever their status
  was. For a caller who is no administrator the store changes no row and reports no
  error, and the call reports success. The call fails with "Failed to update order
  status", the store unchanged, when the store reports an error, as it does for a status
  outside the five on an order an administrator reaches. The fulfillment table bears on
  the buttons only: under an order that the page of an administrator shows in one of the
  five statuses, the statuses the buttons request are exactly the legal targets of the
  shown status, so a click never requests an edge that is illegal from the shown status;
  anyone else sees no button. The shown status is the page's copy and may be older than
  the stored one.
\<close>

theorem updateOrderStatus_unchecked:
  "(is_admin d caller \<and> orders_update_ok be \<and> newStatus \<in> set statuses \<longrightarrow>
      updateOrderStatus be caller orderId newStatus d
        = ([Toast_success ''Order status updated'', Load_orders],
           d\<lparr>orders := map (\<lambda>ord. if ord_id ord = orderId
                                     then ord\<lparr>ord_status := newStatus, ord_updated_at := db_now be\<rparr>
                                     else ord)
                             (orders d)\<rparr>))
   \<and> (\<not> is_admin d caller \<and> orders_update_ok be \<longrightarrow>
        updateOrderStatus be caller orderId newStatus d
          = ([Toast_success ''Order status updated'', Load_orders], d))
   \<and> (\<not> orders_update_ok be \<longrightarrow>
        updateOrderStatus be caller orderId newStatus d = ([Toast_error ''Failed to update order status''], d))
   \<and> (is_admin d caller \<and> newStatus \<notin> set statuses
        \<and> filter (\<lambda>ord. ord_id ord = orderId) (orders d) \<noteq> [] \<longrightarrow>
        updateOrderStatus be caller orderId newStatus d = ([Toast_error ''Failed to update order status''], d))
   \<and> (\<forall>from\<in>set statuses. \<forall>to. to \<in> set (status_buttons True from) \<longleftrightarrow> legal_transition from to)
   \<and> status_buttons False status = []
   \<and> (shown_status order \<in> set statuses \<and> \<not> legal_transition (shown_status order) newStatus \<longrightarrow>
        button_click be caller isAdmin order newStatus d = ([], d))"
proof -
  have 7: "is_admin d caller \<and> newStatus \<notin> set statuses
        \<and> filter (\<lambda>ord. ord_id ord = orderId) (orders d) \<noteq> [] \<longrightarrow>
        updateOrderStatus be caller orderId newStatus d = ([Toast_error ''Failed to update order status''], d)"
    by (simp add: updateOrderStatus_def Let_def)
  have 1: "is_admin d caller \<and> orders_update_ok be \<and> newStatus \<in> set statuses \<longrightarrow>
      updateOrderStatus be caller orderId newStatus d
        = ([Toast_success ''Order status updated'', Load_orders],
           d\<lparr>orders := map (\<lambda>ord. if ord_id ord = orderId
                                     then ord\<lparr>ord_status := newStatus, ord_updated_at := db_now be\<rparr>
                                     else ord)
                             (orders d)\<rparr>)"
    using update_admin by blast
  have 2: "\<not> is_admin d caller \<and> orders_update_ok be \<longrightarrow>
        updateOrderStatus be caller orderId newStatus d
          = ([Toast_success ''Order status updated'', Load_orders], d)"
    using update_not_admin by blast
  have 3: "\<not> orders_update_ok be \<longrightarrow>
        updateOrderStatus be caller orderId newStatus d = ([Toast_error ''Failed to update order status''], d)"
    by (simp add: updateOrderStatus_def Let_def)
  have 4: "\<forall>from\<in>set statuses. \<forall>to. to \<in> set (status_buttons True from) \<longleftrightarrow> legal_transition from to"
    using buttons_legal by blast
  have 5: "status_buttons False status = []" by (simp add: status_buttons_def)
  have 6: "shown_status order \<in> set statuses \<and> \<not> legal_transition (shown_status order) newStatus \<longrightarrow>
        button_click be caller isAdmin order newStatus d = ([], d)"
  proof (intro impI, elim conjE)
    assume s: "shown_status order \<in> set statuses"
      and n: "\<not> legal_transition (shown_status order) newStatus"
    have "newStatus \<notin> set (status_buttons isAdmin (shown_status order))"
    proof (cases isAdmin)
      case True
      then show ?thesis using buttons_legal [OF s, of newStatus] n by simp
    next
      case False
      then show ?thesis by (simp add: status_buttons_def)
    qed
    then show "button_click be caller isAdmin order newStatus d = ([], d)"
      by (simp add: button_click_def)
  qed
  show ?thesis by (intro conjI) (fact 1 2 3 7 4 5 6)+
qed

theorem updateOrderStatus_unchecked_witness:
  "is_admin placed_db (Some ''a1'') \<and> orders_update_ok later \<and> ''completed'' \<in> set statuses
   \<and> updateOrderStatus later (Some ''a1'') ''o1'' ''completed'' placed_db
       = ([Toast_success ''Order status updated'', Load_orders],
          placed_db\<lparr>orders := [(sample_order ''completed'')\<lparr>ord_updated_at := 1700001123500\<rparr>]\<rparr>)
   \<and> \<not> is_admin placed_db (Some ''u1'')
   \<and> updateOrderStatus later (Some ''u1'') ''o1'' ''completed'' placed_db
       = ([Toast_success ''Order status updated'', Load_orders], placed_db)
   \<and> \<not> orders_update_ok (later\<lparr>orders_update_ok := False\<rparr>)
   \<and> updateOrderStatus (later\<lparr>orders_update_ok := False\<rparr>) (Some ''a1'') ''o1'' ''completed'' placed_db
       = ([Toast_error ''Failed to update order status''], placed_db)
   \<and> ''served'' \<notin> set statuses
   \<and> filter (\<lambda>ord. ord_id ord = ''o1'') (orders placed_db) \<noteq> []
   \<and> updateOrderStatus later (Some ''a1'') ''o1'' ''served'' placed_db
       = ([Toast_error ''Failed to update order status''], placed_db)
   \<and> ''pending'' \<in> set statuses
   \<and> set (status_buttons True ''pending'') = {''preparing'', ''cancelled''}
   \<and> legal_transition ''pending'' ''preparing'' \<and> legal_transition ''pending'' ''cancelled''
   \<and> \<not> legal_transition ''pending'' ''ready''
   \<and> button_click later (Some ''a1'') True \<lparr>shown_id = ''o1'', shown_status = ''pending''\<rparr> ''ready'' placed_db
       = ([], placed_db)"
proof -
  let ?rej = "later\<lparr>orders_update_ok := False\<rparr>"
  let ?shown = "\<lparr>shown_id = ''o1'', shown_status = ''pending''\<rparr>"
  have a: "is_admin placed_db (Some ''a1'')" and na: "\<not> is_admin placed_db (Some ''u1'')"
    by (rule is_admin_sample)+
  have ok: "orders_update_ok later" by (simp add: later_def accepting_def)
  have now: "db_now later = 1700001123500" by (simp add: later_def)
  have rej: "\<not> orders_update_ok ?rej" by simp
  have c: "''completed'' \<in> set statuses" and p: "''pending'' \<in> set statuses"
    and sv: "''served'' \<notin> set statuses"
    by (simp_all add: statuses_def)
  have o: "orders placed_db = [sample_order ''pending'']" by (simp add: placed_db_def)
  have f: "filter (\<lambda>ord. ord_id ord = ''o1'') (orders placed_db) \<noteq> []"
    by (simp add: o sample_order_def)
  have s: "set (status_buttons True ''pending'') = {''preparing'', ''cancelled''}"
    by (simp add: status_buttons_def)
  have m: "map (\<lambda>ord. if ord_id ord = ''o1''
                       then ord\<lparr>ord_status := ''completed'', ord_updated_at := db_now later\<rparr> else ord)
             (orders placed_db) = [(sample_order ''completed'')\<lparr>ord_updated_at := 1700001123500\<rparr>]"
    by (simp add: o now sample_order_def)
  have sh: "shown_status ?shown = ''pending''" by simp
  note t1 = updateOrderStatus_unchecked [of placed_db "Some ''a1''" later "''completed''" "''o1''"
      "''pending''" ?shown True]
  note t2 = updateOrderStatus_unchecked [of placed_db "Some ''u1''" later "''completed''" "''o1''"
      "''pending''" ?shown True]
  note t3 = updateOrderStatus_unchecked [of placed_db "Some ''a1''" ?rej "''completed''" "''o1''"
      "''pending''" ?shown True]
  note t4 = updateOrderStatus_unchecked [of placed_db "Some ''a1''" later "''served''" "''o1''"
      "''pending''" ?shown True]
  note t5 = updateOrderStatus_unchecked [of placed_db "Some ''a1''" later "''ready''" "''o1''"
      "''pending''" ?shown True]
  from t1 a ok c have 1: "updateOrderStatus later (Some ''a1'') ''o1'' ''completed'' placed_db
       = ([Toast_success ''Order status updated'', Load_orders],
          placed_db\<lparr>orders := [(sample_order ''completed'')\<lparr>ord_updated_at := 1700001123500\<rparr>]\<rparr>)"
    unfolding m by blast
  from t2 na ok have 2: "updateOrderStatus later (Some ''u1'') ''o1'' ''completed'' placed_db
       = ([Toast_success ''Order status updated'', Load_orders], placed_db)"
    by blast
  from t3 rej have 3: "updateOrderStatus ?rej (Some ''a1'') ''o1'' ''completed'' placed_db
       = ([Toast_error ''Failed to update order status''], placed_db)"
    by blast
  from t4 a sv f have 4: "updateOrderStatus later (Some ''a1'') ''o1'' ''served'' placed_db
       = ([Toast_error ''Failed to update order status''], placed_db)"
    by blast
  from t1 p have b: "\<forall>to. to \<in> set (status_buttons True ''pending'') \<longleftrightarrow> legal_transition ''pending'' to"
    by blast
  have 5: "legal_transition ''pending'' ''preparing''"
    using b [rule_format, of "''preparing''"] unfolding s by simp
  have 6: "legal_transition ''pending'' ''cancelled''"
    using b [rule_format, of "''cancelled''"] unfolding s by simp
  have 7: "\<not> legal_transition ''pending'' ''ready''"
    using b [rule_format, of "''ready''"] unfolding s by simp
  from t5 p 7 have 8: "button_click later (Some ''a1'') True ?shown ''ready'' placed_db = ([], placed_db)"
    unfolding sh by blast
  show ?thesis by (intro conjI) (fact a ok c 1 na 2 rej 3 sv f 4 p s 5 6 7 8)+
qed

text \<open>
  C2 as stated fails: pending to ready is no edge of the table, and the call of an
  administrator on a pending order with the status ready succeeds and leaves the order
  ready. Nor do the buttons keep the table: completed to cancelled is no edge, and on a
  page that still shows a completed order as ready the cancel button succeeds and leaves
  the order cancelled.
\<close>

theorem updateOrderStatus_unchecked_counterexample:
  "\<not> legal_transition ''pending'' ''ready''
   \<and> updateOrderStatus later (Some ''a1'') ''o1'' ''ready'' (placed_db\<lparr>orders := [sample_order ''pending'']\<rparr>)
       = ([Toast_success ''Order status updated'', Load_orders],
          placed_db\<lparr>orders := [(sample_order ''ready'')\<lparr>ord_updated_at := 1700001123500\<rparr>]\<rparr>)
   \<and> \<not> legal_transition ''completed'' ''cancelled''
   \<and> button_click later (Some ''a1'') True \<lparr>shown_id = ''o1'', shown_status = ''ready''\<rparr> ''cancelled''
        (placed_db\<lparr>orders := [sample_order ''completed'']\<rparr>)
       = ([Toast_success ''Order status updated'', Load_orders],
          placed_db\<lparr>orders := [(sample_order ''cancelled'')\<lparr>ord_updated_at := 1700001123500\<rparr>]\<rparr>)"
proof -
  have 1: "\<not> legal_transition ''pending'' ''ready''" by (simp add: legal_transition_def)
  have 2: "updateOrderStatus later (Some ''a1'') ''o1'' ''ready'' (placed_db\<lparr>orders := [sample_order ''pending'']\<rparr>)
       = ([Toast_success ''Order status updated'', Load_orders],
          placed_db\<lparr>orders := [(sample_order ''ready'')\<lparr>ord_updated_at := 1700001123500\<rparr>]\<rparr>)"
    by (simp add: update_sample statuses_def)
  have 3: "\<not> legal_transition ''completed'' ''cancelled''" by (simp add: legal_transition_def)
  have b: "''cancelled'' \<in> set (status_buttons True ''ready'')" by (simp add: status_buttons_def)
  have 4: "button_click later (Some ''a1'') True \<lparr>shown_id = ''o1'', shown_status = ''ready''\<rparr> ''cancelled''
        (placed_db\<lparr>orders := [sample_order ''completed'']\<rparr>)
       = ([Toast_success ''Order status updated'', Load_orders],
          placed_db\<lparr>orders := [(sample_order ''cancelled'')\<lparr>ord_updated_at := 1700001123500\<rparr>]\<rparr>)"
    using b by (simp add: button_click_def update_sample statuses_def)
  show ?thesis by (intro conjI) (fact 1 2 3 4)+
qed

text \<open>
  C6 asks that a successful transition into completed stamps \<open>completed_at\<close>. The code
  does not do so: for an administrator, a store that reports no error and a stored order
  with the given identifier, \<open>updateOrderStatus\<close> into completed succeeds, the order gets
  the status completed and, by the trigger, a new \<open>updated_at\<close>, and the \<open>completed_at\<close>
  of every order is what it was before the call, so an empty one stays empty.
\<close>

theorem completed_at_not_stamped:
  "is_admin d caller \<and> orders_update_ok be \<and> ord \<in> set (orders d) \<and> ord_id ord = orderId \<longrightarrow>
     fst (updateOrderStatus be caller orderId ''completed'' d)
       = [Toast_success ''Order status updated'', Load_orders]
     \<and> ord\<lparr>ord_status := ''completed'', ord_updated_at := db_now be\<rparr>
         \<in> set (orders (snd (updateOrderStatus be caller orderId ''completed'' d)))
     \<and> map ord_completed_at (orders (snd (updateOrderStatus be caller orderId ''completed'' d)))
         = map ord_completed_at (orders d)"
proof (intro impI, elim conjE)
  assume a: "is_admin d caller" and ok: "orders_update_ok be"
    and mem: "ord \<in> set (orders d)" and i: "ord_id ord = orderId"
  let ?f = "\<lambda>ord. if ord_id ord = orderId
                   then ord\<lparr>ord_status := ''completed'', ord_updated_at := db_now be\<rparr> else ord"
  have c: "''completed'' \<in> set statuses" by (simp add: statuses_def)
  have u: "updateOrderStatus be caller orderId ''completed'' d
             = ([Toast_success ''Order status updated'', Load_orders], d\<lparr>orders := map ?f (orders d)\<rparr>)"
    using a ok c by (rule update_admin)
  have 1: "fst (updateOrderStatus be caller orderId ''completed'' d)
       = [Toast_success ''Order status updated'', Load_orders]"
    unfolding u by simp
  have "?f ord \<in> ?f ` set (orders d)" using mem by (rule imageI)
  then have "?f ord \<in> set (map ?f (orders d))" by (simp only: set_map)
  then have 2: "ord\<lparr>ord_status := ''completed'', ord_updated_at := db_now be\<rparr>
         \<in> set (orders (snd (updateOrderStatus be caller orderId ''completed'' d)))"
    unfolding u using i by simp
  have "map ord_completed_at (map ?f (orders d)) = map ord_completed_at (orders d)"
    by (simp add: comp_def)
  then have 3: "map ord_completed_at (orders (snd (updateOrderStatus be caller orderId ''completed'' d)))
         = map ord_completed_at (orders d)"
    unfolding u by simp
  show "fst (updateOrderStatus be caller orderId ''completed'' d)
       = [Toast_success ''Order status updated'', Load_orders]
     \<and> ord\<lparr>ord_status := ''completed'', ord_updated_at := db_now be\<rparr>
         \<in> set (orders (snd (updateOrderStatus be caller orderId ''completed'' d)))
     \<and> map ord_completed_at (orders (snd (updateOrderStatus be caller orderId ''completed'' d)))
         = map ord_completed_at (orders d)"
    by (intro conjI) (fact 1 2 3)+
qed

theorem completed_at_not_stamped_witness:
  "is_admin (placed_db\<lparr>orders := [sample_order ''ready'']\<rparr>) (Some ''a1'')
   \<and> orders_update_ok later
   \<and> sample_order ''ready'' \<in> set (orders (placed_db\<lparr>orders := [sample_order ''ready'']\<rparr>))
   \<and> ord_id (sample_order ''ready'') = ''o1''
   \<and> ord_status (sample_order ''ready'') = ''ready''
   \<and> ord_completed_at (sample_order ''ready'') = None
   \<and> fst (updateOrderStatus later (Some ''a1'') ''o1'' ''completed''
             (placed_db\<lparr>orders := [sample_order ''ready'']\<rparr>))
       = [Toast_success ''Order status updated'', Load_orders]
   \<and> orders (snd (updateOrderStatus later (Some ''a1'') ''o1'' ''completed''
                     (placed_db\<lparr>orders := [sample_order ''ready'']\<rparr>)))
       = [(sample_order ''completed'')\<lparr>ord_updated_at := 1700001123500\<rparr>]
   \<and> map ord_completed_at (orders (snd (updateOrderStatus later (Some ''a1'') ''o1'' ''completed''
                                         (placed_db\<lparr>orders := [sample_order ''ready'']\<rparr>))))
       = [None]"
proof -
  let ?d = "placed_db\<lparr>orders := [sample_order ''ready'']\<rparr>"
  have a: "is_admin ?d (Some ''a1'')" by (simp add: is_admin_def sample_db_def placed_db_def)
  have ok: "orders_update_ok later" by (simp add: later_def accepting_def)
  have mem: "sample_order ''ready'' \<in> set (orders ?d)" by simp
  have i: "ord_id (sample_order ''ready'') = ''o1''" by (simp add: sample_order_def)
  have st: "ord_status (sample_order ''ready'') = ''ready''" by (simp add: sample_order_def)
  have n: "ord_completed_at (sample_order ''ready'') = None" by (simp add: sample_order_def)
  have n': "map ord_completed_at (orders ?d) = [None]" by (simp add: sample_order_def)
  note t = completed_at_not_stamped [of ?d "Some ''a1''" later "sample_order ''ready''" "''o1''"]
  from t a ok mem i have 1: "fst (updateOrderStatus later (Some ''a1'') ''o1'' ''completed'' ?d)
       = [Toast_success ''Order status updated'', Load_orders]"
    by blast
  from t a ok mem i have "map ord_completed_at (orders (snd (updateOrderStatus later (Some ''a1'') ''o1'' ''completed'' ?d)))
       = map ord_completed_at (orders ?d)"
    by blast
  then have 3: "map ord_completed_at (orders (snd (updateOrderStatus later (Some ''a1'') ''o1'' ''completed'' ?d)))
       = [None]"
    unfolding n' .
  have 2: "orders (snd (updateOrderStatus later (Some ''a1'') ''o1'' ''completed'' ?d))
       = [(sample_order ''completed'')\<lparr>ord_updated_at := 1700001123500\<rparr>]"
    by (simp add: update_sample statuses_def)
  show ?thesis by (intro conjI) (fact a ok mem i st n 1 2 3)+
qed

end
